theory Spec2Isabelle
  imports Main
begin

section \<open>Python values, errors and strings\<close>

text \<open>
  The exceptions the modelled code can raise. A function that may raise returns
  \<open>py_error + 'a\<close>, with \<open>Inl\<close> for the exception that propagates to the caller.
  A Python \<open>str\<close> is a \<open>string\<close>, one \<open>char\<close> for each code point (code points
  below 256), so that \<open>length\<close> and \<open>take\<close> count what Python counts.
\<close>

datatype py_error =
    KeyError | AttributeError | TypeError | ValueError | FileNotFoundError | NotADirectoryError
  | OSError

text \<open>A \<open>datetime\<close> object, as returned by \<open>datetime.utcnow()\<close>.\<close>

record datetime =
  year :: nat
  month :: nat
  day :: nat
  hour :: nat
  minute :: nat
  second :: nat
  microsecond :: nat

text \<open>
  The values a context dictionary can hold. Python's \<open>str\<close> is \<open>PStr\<close>, \<open>bytes\<close> is
  \<open>PBytes\<close>, a \<open>datetime\<close> object is \<open>PDateTime\<close>.
\<close>

datatype pyval =
    PNone
  | PBool bool
  | PInt int
  | PStr string
  | PBytes string
  | PDateTime datetime
  | PList "pyval list"

type_synonym send_context = "string \<rightharpoonup> pyval"

text \<open>Python's truth value of an object: what \<open>not v\<close> negates.\<close>

fun truthy :: "pyval \<Rightarrow> bool" where
  "truthy PNone = False"
| "truthy (PBool b) = b"
| "truthy (PInt i) = (i \<noteq> 0)"
| "truthy (PStr s) = (s \<noteq> [])"
| "truthy (PBytes s) = (s \<noteq> [])"
| "truthy (PDateTime d) = True"
| "truthy (PList vs) = (vs \<noteq> [])"

text \<open>
  \<open>s.replace("Z", "+00:00")\<close> on a \<open>str\<close>: every occurrence of the one-character
  pattern is replaced.
\<close>

definition str_replace_Z :: "string \<Rightarrow> string" where
  "str_replace_Z s = concat (map (\<lambda>c. if c = CHR ''Z'' then ''+00:00'' else [c]) s)"

text \<open>
  The attribute call \<open>v.replace("Z", "+00:00")\<close> on an arbitrary value. Only \<open>str\<close>
  accepts the two \<open>str\<close> arguments. \<open>bytes.replace\<close> exists but wants bytes-like
  arguments, and \<open>datetime.replace\<close> exists but wants integers: both raise
  \<open>TypeError\<close>. The other values have no attribute \<open>replace\<close>.
\<close>

fun py_replace_Z :: "pyval \<Rightarrow> py_error + string" where
  "py_replace_Z (PStr s) = Inr (str_replace_Z s)"
| "py_replace_Z (PBytes s) = Inl TypeError"
| "py_replace_Z (PDateTime d) = Inl TypeError"
| "py_replace_Z PNone = Inl AttributeError"
| "py_replace_Z (PBool b) = Inl AttributeError"
| "py_replace_Z (PInt i) = Inl AttributeError"
| "py_replace_Z (PList vs) = Inl AttributeError"

text \<open>\<open>s.split(c)\<close> for a one-character separator; the result is never empty.\<close>

fun split_chr :: "char \<Rightarrow> string \<Rightarrow> string list" where
  "split_chr c [] = [[]]"
| "split_chr c (x # xs) =
     (if x = c then [] # split_chr c xs
      else (case split_chr c xs of
              [] \<Rightarrow> [[x]]
            | w # ws \<Rightarrow> (x # w) # ws))"

text \<open>\<open>str(n)\<close> for a natural number and for an integer.\<close>

fun show_nat :: "nat \<Rightarrow> string" where
  "show_nat n =
     (if n < 10 then [''0123456789'' ! n]
      else show_nat (n div 10) @ [''0123456789'' ! (n mod 10)])"

declare show_nat.simps [simp del]

definition show_int :: "int \<Rightarrow> string" where
  "show_int i = (if i < 0 then CHR ''-'' # show_nat (nat (- i)) else show_nat (nat i))"

text \<open>The \<open>%0kd\<close> conversion: decimal digits, padded with zeros on the left to width \<open>k\<close>.\<close>

definition zpad :: "nat \<Rightarrow> nat \<Rightarrow> string" where
  "zpad k n = replicate (k - length (show_nat n)) CHR ''0'' @ show_nat n"

text \<open>
  \<open>d.isoformat()\<close>: \<open>YYYY-MM-DDTHH:MM:SS\<close>, followed by \<open>.ffffff\<close> when the
  microsecond field is not zero.
\<close>

definition isoformat :: "datetime \<Rightarrow> string" where
  "isoformat d =
     zpad 4 (year d) @ ''-'' @ zpad 2 (month d) @ ''-'' @ zpad 2 (day d) @ ''T'' @
     zpad 2 (hour d) @ '':'' @ zpad 2 (minute d) @ '':'' @ zpad 2 (second d) @
     (if microsecond d \<noteq> 0 then ''.'' @ zpad 6 (microsecond d) else [])"

text \<open>\<open>d.strftime('%Y%m%d-%H%M%S')\<close>.\<close>

definition strftime :: "datetime \<Rightarrow> string" where
  "strftime d =
     zpad 4 (year d) @ zpad 2 (month d) @ zpad 2 (day d) @ ''-'' @
     zpad 2 (hour d) @ zpad 2 (minute d) @ zpad 2 (second d)"

section \<open>The persistent state and the effects of a run\<close>

text \<open>
  A log entry is the dictionary handed to \<open>json.dumps\<close>, kept as its list of
  key/value pairs in insertion order; a file of the sent directory holds one entry.
\<close>

type_synonym log_entry = "(string \<times> pyval) list"

text \<open>The message dictionary posted to the mail provider.\<close>

record message =
  msg_subject :: string
  msg_content_type :: string
  msg_content :: string
  msg_to_recipients :: "string list"
  msg_save_to_sent_items :: bool

record response =
  status_code :: int
  resp_text :: string

text \<open>
  The effects of a run, in the order the code performs them: lines printed, calls to
  the identity provider and to the mail provider, writes to local storage.
\<close>

datatype event =
    Print string
  | AcquireTokenSilent "string list" string
  | InitiateDeviceFlow "string list"
  | AcquireTokenByDeviceFlow
  | WriteTokenCache string
  | Post string "(string \<times> string) list" message
  | WriteSent string log_entry
  | OpenBrowser string
  | Get string "(string \<times> string) list" "(string \<times> string) list"

text \<open>
  The world: the token cache file (\<open>None\<close> when it does not exist), the sent
  directory (\<open>None\<close> when it does not exist, else its files by name), the number
  of clock readings taken, and the trace of effects so far.
\<close>

record world =
  token_cache :: "string option"
  sent :: "(string \<rightharpoonup> log_entry) option"
  ticks :: nat
  trace :: "event list"

definition emit :: "event \<Rightarrow> world \<Rightarrow> world" where
  "emit e w = w\<lparr>trace := trace w @ [e]\<rparr>"

definition prints :: "string list \<Rightarrow> world \<Rightarrow> world" where
  "prints ls w = w\<lparr>trace := trace w @ map Print ls\<rparr>"

text \<open>\<open>datetime.utcnow()\<close>: the next reading of the clock \<open>clk\<close>.\<close>

definition utcnow :: "(nat \<Rightarrow> datetime) \<Rightarrow> world \<Rightarrow> datetime \<times> world" where
  "utcnow clk w = (clk (ticks w), w\<lparr>ticks := Suc (ticks w)\<rparr>)"

text \<open>
  The length of a string in bytes of UTF-8: a code point below 128 is one byte, the
  others (below 256) are two.
\<close>

definition utf8_length :: "string \<Rightarrow> nat" where
  "utf8_length s = sum_list (map (\<lambda>c. if (of_char c :: nat) < 128 then 1 else 2) s)"

text \<open>The longest name of a file, in bytes, that the file system accepts.\<close>

definition NAME_MAX :: nat where
  "NAME_MAX = 255"

text \<open>
  \<open>(SENT_DIR / name).write_text(...)\<close>: creates or overwrites the file. Python
  refuses a path with a NUL character (\<open>ValueError\<close>) before it asks the system. The
  system then walks the path: it raises \<open>FileNotFoundError\<close> when the sent directory
  does not exist, and \<open>OSError\<close> for a component longer than \<open>NAME_MAX\<close> bytes. The
  sent directory holds files only, so a name with a \<open>/\<close> points below a directory
  that does not exist (\<open>FileNotFoundError\<close>), or below a file
  (\<open>NotADirectoryError\<close>). Permissions and space on the device are outside the
  model.
\<close>

definition write_sent :: "string \<Rightarrow> log_entry \<Rightarrow> world \<Rightarrow> py_error + world" where
  "write_sent name entry w =
     (if CHR 0x00 \<in> set name then Inl ValueError
      else case sent w of
        None \<Rightarrow> Inl FileNotFoundError
      | Some files \<Rightarrow>
          if CHR ''/'' \<in> set name
          then (if utf8_length (hd (split_chr CHR ''/'' name)) > NAME_MAX then Inl OSError
                else if files (hd (split_chr CHR ''/'' name)) = None
                then Inl FileNotFoundError else Inl NotADirectoryError)
          else if utf8_length name > NAME_MAX then Inl OSError
          else Inr (emit (WriteSent name entry) (w\<lparr>sent := Some (files(name \<mapsto> entry))\<rparr>)))"

text \<open>\<open>path.name\<close>: the last component of a path.\<close>

definition path_name :: "string \<Rightarrow> string" where
  "path_name p = last (split_chr CHR ''/'' p)"

section \<open>The validator: \<open>validators/email_audit.py\<close>\<close>

definition VERSION :: string where
  "VERSION = ''1.0.0''"

definition VALIDATOR_ID :: string where
  "VALIDATOR_ID = ''email.audit''"

record validator_result =
  status :: string
  reason :: string

text \<open>
  The loop over the required fields: the first field that is absent from the context,
  or whose value is not truthy, ends the loop.
\<close>

fun first_missing :: "string list \<Rightarrow> send_context \<Rightarrow> string option" where
  "first_missing [] ctx = None"
| "first_missing (field # rest) ctx =
     (case ctx field of
        None \<Rightarrow> Some field
      | Some v \<Rightarrow> if \<not> truthy v then Some field else first_missing rest ctx)"

text \<open>
  \<open>validate(context)\<close>. The parser \<open>datetime.fromisoformat\<close> belongs to the Python
  library: \<open>fromisoformat s\<close> says whether it accepts \<open>s\<close> (it raises \<open>ValueError\<close>
  otherwise). The \<open>try\<close> block catches \<open>ValueError\<close> and \<open>AttributeError\<close>; any other
  exception propagates.
\<close>

definition validate :: "(string \<Rightarrow> bool) \<Rightarrow> send_context \<Rightarrow> world \<Rightarrow> py_error + validator_result" where
  "validate fromisoformat ctx w =
     (case first_missing [''to'', ''subject'', ''timestamp''] ctx of
        Some field \<Rightarrow>
          Inr \<lparr>status = ''fail'', reason = ''Missing required field: '' @ field\<rparr>
      | None \<Rightarrow>
          (case (case ctx ''timestamp'' of
                   None \<Rightarrow> Inl KeyError
                 | Some v \<Rightarrow>
                     (case py_replace_Z v of
                        Inl e \<Rightarrow> Inl e
                      | Inr s \<Rightarrow> if fromisoformat s then Inr () else Inl ValueError)) of
             Inl ValueError \<Rightarrow> Inr \<lparr>status = ''fail'', reason = ''Invalid timestamp format''\<rparr>
           | Inl AttributeError \<Rightarrow> Inr \<lparr>status = ''fail'', reason = ''Invalid timestamp format''\<rparr>
           | Inl e \<Rightarrow> Inl e
           | Inr u \<Rightarrow>
               if sent w = None
               then Inr \<lparr>status = ''fail'', reason = ''Audit directory does not exist''\<rparr>
               else Inr \<lparr>status = ''pass'', reason = ''Audit trail ready''\<rparr>))"

text \<open>
  The attribute call \<open>v.split("@")\<close> on an arbitrary value: \<open>bytes.split\<close> wants a
  bytes-like separator, the other values that are not \<open>str\<close> have no attribute \<open>split\<close>.
\<close>

fun py_split_at :: "pyval \<Rightarrow> py_error + string list" where
  "py_split_at (PStr s) = Inr (split_chr CHR ''@'' s)"
| "py_split_at (PBytes s) = Inl TypeError"
| "py_split_at PNone = Inl AttributeError"
| "py_split_at (PBool b) = Inl AttributeError"
| "py_split_at (PInt i) = Inl AttributeError"
| "py_split_at (PDateTime d) = Inl AttributeError"
| "py_split_at (PList vs) = Inl AttributeError"

text \<open>Whether \<open>json.dumps\<close> accepts a value; it raises \<open>TypeError\<close> otherwise.\<close>

fun json_serializable :: "pyval \<Rightarrow> bool" where
  "json_serializable PNone = True"
| "json_serializable (PBool b) = True"
| "json_serializable (PInt i) = True"
| "json_serializable (PStr s) = True"
| "json_serializable (PBytes s) = False"
| "json_serializable (PDateTime d) = False"
| "json_serializable (PList vs) = list_all json_serializable vs"

text \<open>The dictionary and the file name that \<open>log_send\<close> builds from one clock reading.\<close>

definition log_send_entry :: "datetime \<Rightarrow> pyval \<Rightarrow> pyval \<Rightarrow> log_entry" where
  "log_send_entry timestamp to subject =
     [(''validator'', PStr VALIDATOR_ID),
      (''version'', PStr VERSION),
      (''timestamp'', PStr (isoformat timestamp @ ''Z'')),
      (''to'', to),
      (''subject'', subject),
      (''status'', PStr ''sent''),
      (''outlook'', PBool True)]"

definition log_send_file :: "datetime \<Rightarrow> string list \<Rightarrow> string" where
  "log_send_file timestamp parts =
     strftime timestamp @ ''-'' @ take 20 (hd parts) @ ''.json''"

text \<open>
  \<open>log_send(context, sent_dir)\<close>, with the sent directory of the world as \<open>sent_dir\<close>.
  It returns the name of the log file.
\<close>

definition log_send :: "(nat \<Rightarrow> datetime) \<Rightarrow> send_context \<Rightarrow> world \<Rightarrow> (py_error + string) \<times> world" where
  "log_send clk ctx w =
     (let (timestamp, w1) = utcnow clk w in
      case ctx ''to'' of
        None \<Rightarrow> (Inl KeyError, w1)
      | Some to \<Rightarrow>
          (case ctx ''subject'' of
             None \<Rightarrow> (Inl KeyError, w1)
           | Some subject \<Rightarrow>
               (let log_entry = log_send_entry timestamp to subject in
                case py_split_at to of
                  Inl e \<Rightarrow> (Inl e, w1)
                | Inr parts \<Rightarrow>
                    (let log_file = log_send_file timestamp parts in
                     if \<not> list_all (json_serializable \<circ> snd) log_entry
                     then (Inl TypeError, w1)
                     else (case write_sent log_file log_entry w1 of
                             Inl e \<Rightarrow> (Inl e, w1)
                           | Inr w2 \<Rightarrow> (Inr log_file, w2))))))"

section \<open>The token provider and the mail sender: \<open>email.py\<close>\<close>

definition GRAPH_ENDPOINT :: string where
  "GRAPH_ENDPOINT = ''https://graph.microsoft.com/v1.0''"

definition SCOPES :: "string list" where
  "SCOPES = [''Mail.Send'', ''Mail.ReadWrite'', ''User.Read'']"

type_synonym pydict = "string \<rightharpoonup> string"

text \<open>
  The public client application of the MSAL library: its identity and the token cache
  object it shares with the caller. The cache is opaque (\<open>'c\<close>).
\<close>

record 'c app =
  client_id :: string
  authority :: string
  cache :: 'c

text \<open>
  The MSAL library and the identity provider behind it are not part of the program;
  they are a parameter. A call that changes the cache object in place returns the new
  cache next to its result. \<open>acquire_token_silent\<close> returns \<open>None\<close> or a dictionary,
  the device flow calls return dictionaries.
\<close>

record 'c msal =
  new_cache :: 'c
  deserialize :: "'c \<Rightarrow> string \<Rightarrow> 'c"
  serialize :: "'c \<Rightarrow> string"
  get_accounts :: "'c app \<Rightarrow> string list"
  acquire_token_silent :: "'c app \<Rightarrow> string list \<Rightarrow> string \<Rightarrow> pydict option \<times> 'c"
  initiate_device_flow :: "'c app \<Rightarrow> string list \<Rightarrow> pydict"
  acquire_token_by_device_flow :: "'c app \<Rightarrow> pydict \<Rightarrow> pydict \<times> 'c"

text \<open>\<open>get_msal_app(config)\<close>: a missing configuration key raises \<open>KeyError\<close>.\<close>

definition get_msal_app :: "'c msal \<Rightarrow> pydict \<Rightarrow> world \<Rightarrow> py_error + 'c app" where
  "get_msal_app lib config w =
     (let c0 = new_cache lib;
          c = (case token_cache w of None \<Rightarrow> c0 | Some blob \<Rightarrow> deserialize lib c0 blob)
      in case config ''client_id'' of
           None \<Rightarrow> Inl KeyError
         | Some cid \<Rightarrow>
             (case config ''tenant_id'' of
                None \<Rightarrow> Inl KeyError
              | Some tid \<Rightarrow>
                  Inr \<lparr>client_id = cid,
                       authority = ''https://login.microsoftonline.com/'' @ tid,
                       cache = c\<rparr>))"

text \<open>
  Lines 74 to 78 of \<open>get_access_token\<close>: the silent attempt. The result is the token
  when the attempt yields one, with the application after the attempt. A dictionary
  that holds \<open>access_token\<close> is not empty, so \<open>result and ...\<close> only excludes \<open>None\<close>.
\<close>

definition silent_token :: "'c msal \<Rightarrow> 'c app \<Rightarrow> world \<Rightarrow> string option \<times> 'c app \<times> world" where
  "silent_token lib a w =
     (case get_accounts lib a of
        [] \<Rightarrow> (None, a, w)
      | account # others \<Rightarrow>
          (let (result, c) = acquire_token_silent lib a SCOPES account;
               a1 = a\<lparr>cache := c\<rparr>;
               w1 = emit (AcquireTokenSilent SCOPES account) w
           in case result of
                None \<Rightarrow> (None, a1, w1)
              | Some d \<Rightarrow> (d ''access_token'', a1, w1)))"

text \<open>\<open>d.get(key, default)\<close>.\<close>

definition dict_get :: "pydict \<Rightarrow> string \<Rightarrow> string \<Rightarrow> string" where
  "dict_get d k dflt = (case d k of None \<Rightarrow> dflt | Some v \<Rightarrow> v)"

text \<open>
  Lines 80 to 102 of \<open>get_access_token\<close>: the device code flow. The token cache file
  is written in the branch that holds the token, and nowhere else.
\<close>

definition device_code_flow :: "'c msal \<Rightarrow> 'c app \<Rightarrow> world \<Rightarrow> (py_error + string option) \<times> world" where
  "device_code_flow lib a w =
     (let flow = initiate_device_flow lib a SCOPES;
          w1 = emit (InitiateDeviceFlow SCOPES) w
      in case flow ''user_code'' of
           None \<Rightarrow>
             (Inr None,
              prints [''ERROR: '' @ dict_get flow ''error_description'' ''Could not initiate auth''] w1)
         | Some user_code \<Rightarrow>
             (let w2 = prints [[CHR 0x0A] @ replicate 60 CHR ''='',
                               ''AUTHENTICATE WITH MICROSOFT'',
                               replicate 60 CHR ''=''] w1
              in case flow ''verification_uri'' of
                   None \<Rightarrow> (Inl KeyError, w2)
                 | Some uri \<Rightarrow>
                     (let w3 = prints [[CHR 0x0A] @ ''1. Go to: '' @ uri,
                                       ''2. Enter code: '' @ user_code,
                                       [CHR 0x0A] @ ''Waiting for authentication...'' @ [CHR 0x0A]] w2;
                          (result, c) = acquire_token_by_device_flow lib a flow;
                          w4 = emit AcquireTokenByDeviceFlow w3
                      in case result ''access_token'' of
                           Some tok \<Rightarrow>
                             (let blob = serialize lib c;
                                  w5 = emit (WriteTokenCache blob) (w4\<lparr>token_cache := Some blob\<rparr>)
                              in (Inr (Some tok),
                                  prints [''Authentication successful!'' @ [CHR 0x0A]] w5))
                         | None \<Rightarrow>
                             (Inr None,
                              prints [''ERROR: '' @ dict_get result ''error_description''
                                        ''Authentication failed''] w4))))"

text \<open>\<open>get_access_token(config)\<close>: the token, or \<open>None\<close>.\<close>

definition get_access_token :: "'c msal \<Rightarrow> pydict \<Rightarrow> world \<Rightarrow> (py_error + string option) \<times> world" where
  "get_access_token lib config w =
     (case get_msal_app lib config w of
        Inl e \<Rightarrow> (Inl e, w)
      | Inr a \<Rightarrow>
          (case silent_token lib a w of
             (Some tok, a1, w1) \<Rightarrow> (Inr (Some tok), w1)
           | (None, a1, w1) \<Rightarrow> device_code_flow lib a1 w1))"

text \<open>The dictionary and the file name that \<open>send_email\<close> builds, each from its own clock reading.\<close>

definition send_email_entry :: "datetime \<Rightarrow> string \<Rightarrow> string \<Rightarrow> log_entry" where
  "send_email_entry t to subject =
     [(''timestamp'', PStr (isoformat t @ ''Z'')),
      (''to'', PStr to),
      (''subject'', PStr subject),
      (''status'', PStr ''sent''),
      (''outlook'', PBool True)]"

definition send_email_file :: "datetime \<Rightarrow> string \<Rightarrow> string" where
  "send_email_file t to = strftime t @ ''-'' @ hd (split_chr CHR ''@'' to) @ ''.json''"

definition send_message :: "string \<Rightarrow> string \<Rightarrow> string \<Rightarrow> message" where
  "send_message to subject body =
     \<lparr>msg_subject = subject, msg_content_type = ''Text'', msg_content = body,
      msg_to_recipients = [to], msg_save_to_sent_items = True\<rparr>"

definition send_headers :: "string \<Rightarrow> (string \<times> string) list" where
  "send_headers token =
     [(''Authorization'', ''Bearer '' @ token), (''Content-Type'', ''application/json'')]"

text \<open>
  \<open>send_email(to, subject, body, config)\<close>. The mail provider is the parameter
  \<open>http_post\<close> (\<open>requests.post\<close>, which always answers here), the clock is \<open>clk\<close>.
  The result is the boolean the function returns, or the exception that leaves it. The
  function reads the clock twice, once for the record and once for the file name, and
  it calls neither \<open>validate\<close> nor \<open>log_send\<close>.
\<close>

definition send_email ::
  "'c msal \<Rightarrow> (string \<Rightarrow> (string \<times> string) list \<Rightarrow> message \<Rightarrow> response) \<Rightarrow> (nat \<Rightarrow> datetime) \<Rightarrow>
   string \<Rightarrow> string \<Rightarrow> string \<Rightarrow> pydict \<Rightarrow> world \<Rightarrow> (py_error + bool) \<times> world" where
  "send_email lib http_post clk to subject body config w =
     (case get_access_token lib config w of
        (Inl e, w1) \<Rightarrow> (Inl e, w1)
      | (Inr None, w1) \<Rightarrow> (Inr False, w1)
      | (Inr (Some token), w1) \<Rightarrow>
          if token = [] then (Inr False, w1)
          else
            (let endpoint = GRAPH_ENDPOINT @ ''/me/sendMail'';
                 message = send_message to subject body;
                 headers = send_headers token;
                 response = http_post endpoint headers message;
                 w2 = emit (Post endpoint headers message) w1
             in if status_code response = 202
                then
                  (let (t1, w3) = utcnow clk w2;
                       log_entry = send_email_entry t1 to subject;
                       (t2, w4) = utcnow clk w3;
                       log_file = send_email_file t2 to
                   in case write_sent log_file log_entry w4 of
                        Inl e \<Rightarrow> (Inl e, w4)
                      | Inr w5 \<Rightarrow>
                          (Inr True,
                           prints [replicate 60 CHR ''='',
                                   ''EMAIL SENT'',
                                   replicate 60 CHR ''='',
                                   ''To:      '' @ to,
                                   ''Subject: '' @ subject,
                                   ''Log:     '' @ path_name log_file,
                                   ''Outlook: Check your Sent folder!'',
                                   replicate 60 CHR ''=''] w5))
                else
                  (Inr False,
                   prints [''ERROR: '' @ show_int (status_code response) @ '' - '' @
                             resp_text response] w2)))"

section \<open>The sign-in script: \<open>auth.py\<close>\<close>

text \<open>
  One message of the inbox as the script reads it from the answer of the Graph API:
  the sender's address, the subject and the reception time where the answer has them,
  and the read flag (a missing flag counts as unread).
\<close>

record inbox_message =
  in_from :: "string option"
  in_subject :: "string option"
  in_received :: "string option"
  in_is_read :: bool

record get_response =
  resp_ok :: bool
  resp_messages :: "inbox_message list"

text \<open>The format \<open>{s:k}\<close> of a \<open>str\<close>: spaces on the right up to width \<open>k\<close>.\<close>

definition pad_right :: "nat \<Rightarrow> string \<Rightarrow> string" where
  "pad_right k s = s @ replicate (k - length s) CHR '' ''"

text \<open>
  The mark of an unread message, the code point U+25CF, which lies outside the range of
  \<open>char\<close>: it is written as the three bytes of its UTF-8 form, and counts as one
  character of width where it is padded.
\<close>

definition BULLET :: string where
  "BULLET = [CHR 0xE2, CHR 0x97, CHR 0x8F]"

definition inbox_line :: "inbox_message \<Rightarrow> string" where
  "inbox_line m =
     (let frm = take 28 (case in_from m of None \<Rightarrow> ''?'' | Some v \<Rightarrow> v);
          subj = take 35 (case in_subject m of None \<Rightarrow> [] | Some v \<Rightarrow> v);
          dt = map (\<lambda>c. if c = CHR ''T'' then CHR '' '' else c)
                 (take 16 (case in_received m of None \<Rightarrow> [] | Some v \<Rightarrow> v));
          read = (if in_is_read m then pad_right 2 [] else BULLET @ '' '')
      in read @ '' '' @ dt @ '' | '' @ pad_right 28 frm @ '' | '' @ subj)"

text \<open>
  The script, run once. The configuration file is read before anything else and is the
  parameter \<open>config\<close>; the cache starts empty and is not loaded from the cache file.
  \<open>http_get\<close> is \<open>requests.get\<close> and \<open>py_repr\<close> is the text Python prints for a
  dictionary. As in \<open>get_access_token\<close>, the cache file is written in the branch that
  holds the token, and nowhere else.
\<close>

definition auth_script ::
  "'c msal \<Rightarrow> (string \<Rightarrow> (string \<times> string) list \<Rightarrow> (string \<times> string) list \<Rightarrow> get_response) \<Rightarrow>
   (pydict \<Rightarrow> string) \<Rightarrow> pydict \<Rightarrow> world \<Rightarrow> (py_error + unit) \<times> world" where
  "auth_script lib http_get py_repr config w =
     (case config ''client_id'' of
        None \<Rightarrow> (Inl KeyError, w)
      | Some cid \<Rightarrow>
     (case config ''tenant_id'' of
        None \<Rightarrow> (Inl KeyError, w)
      | Some tid \<Rightarrow>
     (let a = \<lparr>client_id = cid,
               authority = ''https://login.microsoftonline.com/'' @ tid,
               cache = new_cache lib\<rparr>;
          w1 = prints [[CHR 0x0A] @ replicate 50 CHR ''='',
                       ''CANONIC EMAIL AUTHENTICATION'',
                       replicate 50 CHR ''=''] w;
          flow = initiate_device_flow lib a [''Mail.Send'', ''Mail.ReadWrite'', ''User.Read''];
          w2 = emit (InitiateDeviceFlow [''Mail.Send'', ''Mail.ReadWrite'', ''User.Read'']) w1
      in case flow ''verification_uri'' of
           None \<Rightarrow> (Inl KeyError, w2)
         | Some uri \<Rightarrow>
      (let w3 = prints [[CHR 0x0A] @ ''1. Go to: '' @ uri] w2
       in case flow ''user_code'' of
            None \<Rightarrow> (Inl KeyError, w3)
          | Some user_code \<Rightarrow>
      (let w4 = prints [''2. Enter code: '' @ user_code,
                        [CHR 0x0A] @ ''Opening browser...''] w3;
           w5 = emit (OpenBrowser uri) w4;
           w6 = prints [[CHR 0x0A] @ ''Waiting for you to authenticate...'' @ [CHR 0x0A]] w5;
           (result, c) = acquire_token_by_device_flow lib a flow;
           w7 = emit AcquireTokenByDeviceFlow w6
       in case result ''access_token'' of
            Some tok \<Rightarrow>
              (let blob = serialize lib c;
                   w8 = emit (WriteTokenCache blob) (w7\<lparr>token_cache := Some blob\<rparr>);
                   w9 = prints [''SUCCESS! Token saved.'' @ [CHR 0x0A]] w8;
                   url = ''https://graph.microsoft.com/v1.0/me/messages'';
                   headers = [(''Authorization'', ''Bearer '' @ tok)];
                   params = [(''$top'', ''10''),
                             (''$orderby'', ''receivedDateTime desc''),
                             (''$select'', ''subject,from,receivedDateTime,isRead'')];
                   r = http_get url headers params;
                   w10 = emit (Get url headers params) w9
               in if resp_ok r
                  then (Inr (),
                        prints ([replicate 70 CHR ''='', ''INBOX'', replicate 70 CHR ''=''] @
                                map inbox_line (resp_messages r) @
                                [replicate 70 CHR ''='']) w10)
                  else (Inr (), w10))
          | None \<Rightarrow>
              (Inr (),
               prints [''FAILED: '' @ (case result ''error_description'' of
                                         None \<Rightarrow> py_repr result
                                       | Some d \<Rightarrow> d)] w7))))))"

section \<open>Vocabulary of the properties\<close>

text \<open>A required field is missing or empty: absent from the context, or not truthy.\<close>

definition missing_or_empty :: "send_context \<Rightarrow> string \<Rightarrow> bool" where
  "missing_or_empty ctx field = (case ctx field of None \<Rightarrow> True | Some v \<Rightarrow> \<not> truthy v)"

text \<open>The effects a run added to the trace, and the kinds of effect the properties count.\<close>

definition new_events :: "world \<Rightarrow> world \<Rightarrow> event list" where
  "new_events w w' = drop (length (trace w)) (trace w')"

fun is_cache_write :: "event \<Rightarrow> bool" where
  "is_cache_write (WriteTokenCache b) = True"
| "is_cache_write e = False"

fun is_interactive :: "event \<Rightarrow> bool" where
  "is_interactive (InitiateDeviceFlow s) = True"
| "is_interactive AcquireTokenByDeviceFlow = True"
| "is_interactive e = False"

fun is_post :: "event \<Rightarrow> bool" where
  "is_post (Post e h m) = True"
| "is_post e = False"

fun is_audit_write :: "event \<Rightarrow> bool" where
  "is_audit_write (WriteSent n e) = True"
| "is_audit_write e = False"

section \<open>A concrete environment\<close>

text \<open>
  An identity provider whose cache is its own serialisation: a loaded cache holds the
  account \<open>user\<close> and refreshes silently, an empty one holds no account; the device
  flow hands out a code and answers with \<open>device_result\<close>.
\<close>

definition example_lib :: "pydict \<Rightarrow> string msal" where
  "example_lib device_result =
     \<lparr>new_cache = [],
      deserialize = (\<lambda>c blob. blob),
      serialize = (\<lambda>c. c),
      get_accounts = (\<lambda>a. if cache a = [] then [] else [''user'']),
      acquire_token_silent =
        (\<lambda>a scopes account. (Some [''access_token'' \<mapsto> ''silent-token''], cache a)),
      initiate_device_flow =
        (\<lambda>a scopes. [''user_code'' \<mapsto> ''ABC123'',
                      ''verification_uri'' \<mapsto> ''https://microsoft.com/devicelogin'']),
      acquire_token_by_device_flow = (\<lambda>a flow. (device_result, ''cache-1''))\<rparr>"

text \<open>
  The same provider with refresh material that is no longer good: the silent
  acquisition finds no token.
\<close>

definition expired_lib :: "pydict \<Rightarrow> string msal" where
  "expired_lib device_result =
     (example_lib device_result)
       \<lparr>acquire_token_silent := (\<lambda>a scopes account. (None, cache a))\<rparr>"

text \<open>A stand-in for the text Python prints for a dictionary.\<close>

definition example_repr :: "pydict \<Rightarrow> string" where
  "example_repr d = ''{...}''"

text \<open>A Graph API that answers the inbox request with no message.\<close>

definition example_inbox ::
  "string \<Rightarrow> (string \<times> string) list \<Rightarrow> (string \<times> string) list \<Rightarrow> get_response" where
  "example_inbox url headers params = \<lparr>resp_ok = True, resp_messages = []\<rparr>"

definition example_config :: pydict where
  "example_config = [''client_id'' \<mapsto> ''abc'', ''tenant_id'' \<mapsto> ''def'']"

text \<open>
  A clock whose readings all fall in the first second of 1 January 2024, one
  microsecond apart.
\<close>

definition example_clock :: "nat \<Rightarrow> datetime" where
  "example_clock n =
     \<lparr>year = 2024, month = 1, day = 1, hour = 0, minute = 0, second = 0, microsecond = n\<rparr>"

definition example_provider ::
  "int \<Rightarrow> string \<Rightarrow> string \<Rightarrow> (string \<times> string) list \<Rightarrow> message \<Rightarrow> response" where
  "example_provider code body endpoint headers message = \<lparr>status_code = code, resp_text = body\<rparr>"

definition signed_in_world :: "(string \<rightharpoonup> log_entry) option \<Rightarrow> world" where
  "signed_in_world dir = \<lparr>token_cache = Some ''cache-0'', sent = dir, ticks = 0, trace = []\<rparr>"

definition signed_out_world :: world where
  "signed_out_world = \<lparr>token_cache = None, sent = Some Map.empty, ticks = 0, trace = []\<rparr>"

section \<open>Frame lemmas\<close>

lemma silent_token_frame:
  "silent_token lib a w = (r, a1, w1) \<Longrightarrow>
     token_cache w1 = token_cache w \<and> sent w1 = sent w \<and> ticks w1 = ticks w \<and>
     (\<exists>evs. trace w1 = trace w @ evs \<and> \<not> list_ex is_cache_write evs \<and>
            \<not> list_ex is_interactive evs \<and> \<not> list_ex is_post evs \<and>
            \<not> list_ex is_audit_write evs)"
  by (auto simp: silent_token_def emit_def Let_def split: list.splits prod.splits option.splits)

lemma device_code_flow_frame:
  "device_code_flow lib a w = (r, w') \<Longrightarrow>
     sent w' = sent w \<and> ticks w' = ticks w \<and>
     (\<exists>evs. trace w' = trace w @ evs \<and> \<not> list_ex is_post evs \<and>
            \<not> list_ex is_audit_write evs)"
  by (auto simp: device_code_flow_def emit_def prints_def Let_def list_ex_iff
      split: option.splits prod.splits)

lemma get_access_token_frame:
  assumes "get_access_token lib config w = (r, w')"
  shows "sent w' = sent w \<and> ticks w' = ticks w \<and>
     (\<exists>evs. trace w' = trace w @ evs \<and> \<not> list_ex is_post evs \<and>
            \<not> list_ex is_audit_write evs)"
proof (cases "get_msal_app lib config w")
  case (Inl e)
  with assms show ?thesis by (auto simp: get_access_token_def)
next
  case (Inr a)
  obtain t a1 w1 where s: "silent_token lib a w = (t, a1, w1)"
    by (cases "silent_token lib a w") auto
  from silent_token_frame [OF s] obtain evs where
    f1: "sent w1 = sent w" "ticks w1 = ticks w" "trace w1 = trace w @ evs"
        "\<not> list_ex is_post evs" "\<not> list_ex is_audit_write evs"
    by blast
  show ?thesis
  proof (cases t)
    case (Some tok)
    with assms Inr s f1 show ?thesis by (auto simp: get_access_token_def)
  next
    case None
    with assms Inr s have d: "device_code_flow lib a1 w1 = (r, w')"
      by (simp add: get_access_token_def)
    from device_code_flow_frame [OF d] obtain evs' where
      f2: "sent w' = sent w1" "ticks w' = ticks w1" "trace w' = trace w1 @ evs'"
          "\<not> list_ex is_post evs'" "\<not> list_ex is_audit_write evs'"
      by blast
    with f1 show ?thesis by simp
  qed
qed

section \<open>The send gate\<close>

text \<open>
  C6. The validator checks its rules in a fixed order and the first rule that fails
  gives the result. A context whose \<open>to\<close> is missing or empty fails with
  \<open>Missing required field: to\<close>, whatever its timestamp, the parser and the state of
  the audit directory are. Then come \<open>subject\<close>, \<open>timestamp\<close>, the format of a
  string timestamp, the audit directory, and at last the pass.
\<close>

theorem validate_gate_ordering:
  "(missing_or_empty ctx ''to'' \<longrightarrow>
      validate fromisoformat ctx w =
        Inr \<lparr>status = ''fail'', reason = ''Missing required field: to''\<rparr>) \<and>
   (\<not> missing_or_empty ctx ''to'' \<and> missing_or_empty ctx ''subject'' \<longrightarrow>
      validate fromisoformat ctx w =
        Inr \<lparr>status = ''fail'', reason = ''Missing required field: subject''\<rparr>) \<and>
   (\<not> missing_or_empty ctx ''to'' \<and> \<not> missing_or_empty ctx ''subject'' \<and>
    missing_or_empty ctx ''timestamp'' \<longrightarrow>
      validate fromisoformat ctx w =
        Inr \<lparr>status = ''fail'', reason = ''Missing required field: timestamp''\<rparr>) \<and>
   (\<not> missing_or_empty ctx ''to'' \<and> \<not> missing_or_empty ctx ''subject'' \<and>
    \<not> missing_or_empty ctx ''timestamp'' \<and> ctx ''timestamp'' = Some (PStr s) \<and>
    \<not> fromisoformat (str_replace_Z s) \<longrightarrow>
      validate fromisoformat ctx w =
        Inr \<lparr>status = ''fail'', reason = ''Invalid timestamp format''\<rparr>) \<and>
   (\<not> missing_or_empty ctx ''to'' \<and> \<not> missing_or_empty ctx ''subject'' \<and>
    \<not> missing_or_empty ctx ''timestamp'' \<and> ctx ''timestamp'' = Some (PStr s) \<and>
    fromisoformat (str_replace_Z s) \<and> sent w = None \<longrightarrow>
      validate fromisoformat ctx w =
        Inr \<lparr>status = ''fail'', reason = ''Audit directory does not exist''\<rparr>) \<and>
   (\<not> missing_or_empty ctx ''to'' \<and> \<not> missing_or_empty ctx ''subject'' \<and>
    \<not> missing_or_empty ctx ''timestamp'' \<and> ctx ''timestamp'' = Some (PStr s) \<and>
    fromisoformat (str_replace_Z s) \<and> sent w \<noteq> None \<longrightarrow>
      validate fromisoformat ctx w =
        Inr \<lparr>status = ''pass'', reason = ''Audit trail ready''\<rparr>)"
  by (auto simp add: validate_def missing_or_empty_def split: option.splits)

theorem validate_gate_ordering_witness:
  "validate (\<lambda>s. False)
     [''to'' \<mapsto> PStr [], ''subject'' \<mapsto> PStr ''Hi'', ''timestamp'' \<mapsto> PStr ''yesterday'']
     (signed_in_world None) =
     Inr \<lparr>status = ''fail'', reason = ''Missing required field: to''\<rparr> \<and>
   validate (\<lambda>s. False)
     [''subject'' \<mapsto> PStr ''Hi'', ''timestamp'' \<mapsto> PInt 7] (signed_in_world None) =
     Inr \<lparr>status = ''fail'', reason = ''Missing required field: to''\<rparr> \<and>
   validate (\<lambda>s. False)
     [''to'' \<mapsto> PStr ''a@b.com'', ''timestamp'' \<mapsto> PStr ''yesterday''] (signed_in_world None) =
     Inr \<lparr>status = ''fail'', reason = ''Missing required field: subject''\<rparr> \<and>
   validate (\<lambda>s. False)
     [''to'' \<mapsto> PStr ''a@b.com'', ''subject'' \<mapsto> PStr ''Hi'', ''timestamp'' \<mapsto> PStr []]
     (signed_in_world None) =
     Inr \<lparr>status = ''fail'', reason = ''Missing required field: timestamp''\<rparr> \<and>
   validate (\<lambda>s. False)
     [''to'' \<mapsto> PStr ''a@b.com'', ''subject'' \<mapsto> PStr ''Hi'', ''timestamp'' \<mapsto> PStr ''yesterday'']
     (signed_in_world None) =
     Inr \<lparr>status = ''fail'', reason = ''Invalid timestamp format''\<rparr> \<and>
   validate (\<lambda>s. s = ''2024-01-01T00:00:00+00:00'')
     [''to'' \<mapsto> PStr ''a@b.com'', ''subject'' \<mapsto> PStr ''Hi'',
      ''timestamp'' \<mapsto> PStr ''2024-01-01T00:00:00Z'']
     (signed_in_world None) =
     Inr \<lparr>status = ''fail'', reason = ''Audit directory does not exist''\<rparr> \<and>
   validate (\<lambda>s. s = ''2024-01-01T00:00:00+00:00'')
     [''to'' \<mapsto> PStr ''a@b.com'', ''subject'' \<mapsto> PStr ''Hi'',
      ''timestamp'' \<mapsto> PStr ''2024-01-01T00:00:00Z'']
     (signed_in_world (Some Map.empty)) =
     Inr \<lparr>status = ''pass'', reason = ''Audit trail ready''\<rparr>"
proof -
  let ?no = "\<lambda>s::string. False"
  let ?iso = "\<lambda>s. s = ''2024-01-01T00:00:00+00:00''"
  let ?good = "[''to'' \<mapsto> PStr ''a@b.com'', ''subject'' \<mapsto> PStr ''Hi'',
                ''timestamp'' \<mapsto> PStr ''2024-01-01T00:00:00Z'']"
  let ?bad = "[''to'' \<mapsto> PStr ''a@b.com'', ''subject'' \<mapsto> PStr ''Hi'',
               ''timestamp'' \<mapsto> PStr ''yesterday'']"
  have r: "str_replace_Z ''2024-01-01T00:00:00Z'' = ''2024-01-01T00:00:00+00:00''"
    by (simp add: str_replace_Z_def)
  have "validate ?no [''to'' \<mapsto> PStr [], ''subject'' \<mapsto> PStr ''Hi'',
            ''timestamp'' \<mapsto> PStr ''yesterday''] (signed_in_world None) =
          Inr \<lparr>status = ''fail'', reason = ''Missing required field: to''\<rparr>"
    using validate_gate_ordering
      [of "[''to'' \<mapsto> PStr [], ''subject'' \<mapsto> PStr ''Hi'', ''timestamp'' \<mapsto> PStr ''yesterday'']"
          ?no "signed_in_world None" "[]"]
    by (simp add: missing_or_empty_def)
  moreover have "validate ?no [''subject'' \<mapsto> PStr ''Hi'', ''timestamp'' \<mapsto> PInt 7]
          (signed_in_world None) =
          Inr \<lparr>status = ''fail'', reason = ''Missing required field: to''\<rparr>"
    using validate_gate_ordering
      [of "[''subject'' \<mapsto> PStr ''Hi'', ''timestamp'' \<mapsto> PInt 7]" ?no "signed_in_world None" "[]"]
    by (simp add: missing_or_empty_def)
  moreover have "validate ?no [''to'' \<mapsto> PStr ''a@b.com'', ''timestamp'' \<mapsto> PStr ''yesterday'']
          (signed_in_world None) =
          Inr \<lparr>status = ''fail'', reason = ''Missing required field: subject''\<rparr>"
    using validate_gate_ordering
      [of "[''to'' \<mapsto> PStr ''a@b.com'', ''timestamp'' \<mapsto> PStr ''yesterday'']" ?no
          "signed_in_world None" "[]"]
    by (simp add: missing_or_empty_def)
  moreover have "validate ?no [''to'' \<mapsto> PStr ''a@b.com'', ''subject'' \<mapsto> PStr ''Hi'',
            ''timestamp'' \<mapsto> PStr []] (signed_in_world None) =
          Inr \<lparr>status = ''fail'', reason = ''Missing required field: timestamp''\<rparr>"
    using validate_gate_ordering
      [of "[''to'' \<mapsto> PStr ''a@b.com'', ''subject'' \<mapsto> PStr ''Hi'', ''timestamp'' \<mapsto> PStr []]" ?no
          "signed_in_world None" "[]"]
    by (simp add: missing_or_empty_def)
  moreover have "validate ?no ?bad (signed_in_world None) =
          Inr \<lparr>status = ''fail'', reason = ''Invalid timestamp format''\<rparr>"
    using validate_gate_ordering [of ?bad ?no "signed_in_world None" "''yesterday''"]
    by (simp add: missing_or_empty_def)
  moreover have "validate ?iso ?good (signed_in_world None) =
          Inr \<lparr>status = ''fail'', reason = ''Audit directory does not exist''\<rparr>"
    using validate_gate_ordering [of ?good ?iso "signed_in_world None" "''2024-01-01T00:00:00Z''"]
    by (simp add: missing_or_empty_def r signed_in_world_def)
  moreover have "validate ?iso ?good (signed_in_world (Some Map.empty)) =
          Inr \<lparr>status = ''pass'', reason = ''Audit trail ready''\<rparr>"
    using validate_gate_ordering
      [of ?good ?iso "signed_in_world (Some Map.empty)" "''2024-01-01T00:00:00Z''"]
    by (simp add: missing_or_empty_def r signed_in_world_def)
  ultimately show ?thesis by blast
qed

text \<open>
  C10. The validator raises on some contexts: the \<open>try\<close> block catches \<open>ValueError\<close>
  and \<open>AttributeError\<close> only. A timestamp that is a \<open>datetime\<close> object, or a \<open>bytes\<close>
  object, is present and truthy and is not a string; its \<open>replace\<close> method rejects
  the two string arguments with \<open>TypeError\<close>, which leaves \<open>validate\<close>.
\<close>

theorem validate_timestamp_type_error:
  "validate fromisoformat
     [''to'' \<mapsto> PStr ''a@b.com'', ''subject'' \<mapsto> PStr ''Hi'',
      ''timestamp'' \<mapsto> PDateTime (example_clock 0)] w = Inl TypeError \<and>
   validate fromisoformat
     [''to'' \<mapsto> PStr ''a@b.com'', ''subject'' \<mapsto> PStr ''Hi'',
      ''timestamp'' \<mapsto> PBytes ''2024-01-01T00:00:00Z''] w = Inl TypeError"
  by (simp add: validate_def)

text \<open>
  What does hold: a value without a \<open>replace\<close> attribute fails the format rule, and a
  context whose timestamp is a string, or absent, never makes \<open>validate\<close> raise.
\<close>

lemma validate_no_replace_attribute:
  assumes "first_missing [''to'', ''subject'', ''timestamp''] ctx = None"
    and "ctx ''timestamp'' = Some v" and "py_replace_Z v = Inl AttributeError"
  shows "validate fromisoformat ctx w =
           Inr \<lparr>status = ''fail'', reason = ''Invalid timestamp format''\<rparr>"
  using assms by (simp add: validate_def)

lemma validate_str_total:
  assumes "ctx ''timestamp'' = Some (PStr s) \<or> ctx ''timestamp'' = None"
  shows "\<exists>r. validate fromisoformat ctx w = Inr r"
  using assms by (auto simp add: validate_def split: option.splits)

section \<open>The token provider\<close>

lemma silent_path_run:
  assumes "get_msal_app lib config w = Inr a" "get_accounts lib a = account # others"
    "acquire_token_silent lib a SCOPES account = (Some d, c)" "d ''access_token'' = Some tok"
  shows "get_access_token lib config w =
           (Inr (Some tok), w\<lparr>trace := trace w @ [AcquireTokenSilent SCOPES account]\<rparr>)"
  using assms by (simp add: get_access_token_def silent_token_def emit_def)

lemma device_code_flow_persist:
  assumes "device_code_flow lib a w = (r, w')"
    and "list_ex is_cache_write (new_events w w') \<or> token_cache w' \<noteq> token_cache w"
  shows "(\<exists>tok. r = Inr (Some tok)) \<and> AcquireTokenByDeviceFlow \<in> set (new_events w w')"
  using assms
  by (auto simp: device_code_flow_def emit_def prints_def Let_def new_events_def
      split: option.splits prod.splits)

lemma get_access_token_persist:
  assumes run: "get_access_token lib config w = (r, w')"
    and ch: "list_ex is_cache_write (new_events w w') \<or> token_cache w' \<noteq> token_cache w"
  shows "(\<exists>tok. r = Inr (Some tok)) \<and> AcquireTokenByDeviceFlow \<in> set (new_events w w')"
proof (cases "get_msal_app lib config w")
  case (Inl e)
  with run ch show ?thesis by (auto simp: get_access_token_def new_events_def)
next
  case (Inr a)
  obtain t a1 w1 where s: "silent_token lib a w = (t, a1, w1)"
    by (cases "silent_token lib a w") auto
  from silent_token_frame [OF s] obtain evs where
    f1: "token_cache w1 = token_cache w" "trace w1 = trace w @ evs"
        "\<not> list_ex is_cache_write evs"
    by blast
  show ?thesis
  proof (cases t)
    case (Some tok)
    with run Inr s f1 ch show ?thesis by (auto simp: get_access_token_def new_events_def)
  next
    case None
    with run Inr s have d: "device_code_flow lib a1 w1 = (r, w')"
      by (simp add: get_access_token_def)
    from device_code_flow_frame [OF d] obtain evs' where f2: "trace w' = trace w1 @ evs'"
      by blast
    have ne: "new_events w w' = evs @ new_events w1 w'"
      using f1(2) f2 by (simp add: new_events_def)
    have "list_ex is_cache_write (new_events w1 w') \<or> token_cache w' \<noteq> token_cache w1"
      using ch f1 ne by (auto simp: list_ex_iff)
    from device_code_flow_persist [OF d this] show ?thesis by (auto simp: ne)
  qed
qed

lemma example_token:
  "get_access_token (example_lib r) example_config (signed_in_world d) =
     (Inr (Some ''silent-token''), (signed_in_world d)\<lparr>trace := [AcquireTokenSilent SCOPES ''user'']\<rparr>)"
  by (simp add: get_access_token_def get_msal_app_def example_lib_def example_config_def
        signed_in_world_def silent_token_def emit_def)

lemma example_device_success:
  "get_access_token (example_lib [''access_token'' \<mapsto> ''device-token'']) example_config
     signed_out_world =
     (Inr (Some ''device-token''),
      signed_out_world
        \<lparr>token_cache := Some ''cache-1'',
         trace := [InitiateDeviceFlow SCOPES,
                   Print ([CHR 0x0A] @ replicate 60 CHR ''=''),
                   Print ''AUTHENTICATE WITH MICROSOFT'',
                   Print (replicate 60 CHR ''=''),
                   Print ([CHR 0x0A] @ ''1. Go to: https://microsoft.com/devicelogin''),
                   Print ''2. Enter code: ABC123'',
                   Print ([CHR 0x0A] @ ''Waiting for authentication...'' @ [CHR 0x0A]),
                   AcquireTokenByDeviceFlow,
                   WriteTokenCache ''cache-1'',
                   Print (''Authentication successful!'' @ [CHR 0x0A])]\<rparr>)"
  by (simp add: get_access_token_def get_msal_app_def example_lib_def example_config_def
        signed_out_world_def silent_token_def device_code_flow_def emit_def prints_def)

lemma device_success_run:
  assumes "get_msal_app lib config w0 = Inr a" "silent_token lib a w0 = (None, a1, w0')"
    "initiate_device_flow lib a1 SCOPES = flow" "flow ''user_code'' = Some code"
    "flow ''verification_uri'' = Some uri"
    "acquire_token_by_device_flow lib a1 flow = (result, c)" "result ''access_token'' = Some tok0"
  shows "get_access_token lib config w0 =
      (Inr (Some tok0),
       w0'\<lparr>token_cache := Some (serialize lib c),
           trace := trace w0' @
             [InitiateDeviceFlow SCOPES,
              Print ([CHR 0x0A] @ replicate 60 CHR ''=''),
              Print ''AUTHENTICATE WITH MICROSOFT'',
              Print (replicate 60 CHR ''=''),
              Print ([CHR 0x0A] @ ''1. Go to: '' @ uri),
              Print (''2. Enter code: '' @ code),
              Print ([CHR 0x0A] @ ''Waiting for authentication...'' @ [CHR 0x0A]),
              AcquireTokenByDeviceFlow,
              WriteTokenCache (serialize lib c),
              Print (''Authentication successful!'' @ [CHR 0x0A])]\<rparr>)"
  using assms
  by (simp add: get_access_token_def device_code_flow_def Let_def emit_def prints_def)

lemma get_msal_app_reload:
  assumes "get_msal_app lib config w = Inr a" "token_cache w' = Some blob"
  shows "get_msal_app lib config w' = Inr (a\<lparr>cache := deserialize lib (new_cache lib) blob\<rparr>)"
  using assms by (auto simp: get_msal_app_def Let_def split: option.splits)

lemma silent_miss_starts_device_flow:
  assumes "get_msal_app lib config w = Inr a" "silent_token lib a w = (None, a1, w1)"
  shows "InitiateDeviceFlow SCOPES \<in> set (new_events w (snd (get_access_token lib config w)))"
proof -
  from silent_token_frame [OF assms(2)] obtain evs where t: "trace w1 = trace w @ evs" by blast
  have "\<exists>evs'. trace (snd (device_code_flow lib a1 w1)) = trace w1 @ InitiateDeviceFlow SCOPES # evs'"
    by (auto simp: device_code_flow_def Let_def emit_def prints_def split: option.splits prod.splits)
  then obtain evs' where
    "trace (snd (device_code_flow lib a1 w1)) = trace w1 @ InitiateDeviceFlow SCOPES # evs'" by blast
  with t assms show ?thesis by (simp add: get_access_token_def new_events_def)
qed

lemma expired_device_success:
  "get_access_token (expired_lib [''access_token'' \<mapsto> ''device-token'']) example_config
     signed_out_world =
     (Inr (Some ''device-token''),
      signed_out_world
        \<lparr>token_cache := Some ''cache-1'',
         trace := [InitiateDeviceFlow SCOPES,
                   Print ([CHR 0x0A] @ replicate 60 CHR ''=''),
                   Print ''AUTHENTICATE WITH MICROSOFT'',
                   Print (replicate 60 CHR ''=''),
                   Print ([CHR 0x0A] @ ''1. Go to: https://microsoft.com/devicelogin''),
                   Print ''2. Enter code: ABC123'',
                   Print ([CHR 0x0A] @ ''Waiting for authentication...'' @ [CHR 0x0A]),
                   AcquireTokenByDeviceFlow,
                   WriteTokenCache ''cache-1'',
                   Print (''Authentication successful!'' @ [CHR 0x0A])]\<rparr>)"
  by (simp add: get_access_token_def get_msal_app_def expired_lib_def example_lib_def
        example_config_def signed_out_world_def silent_token_def device_code_flow_def emit_def
        prints_def)

lemma auth_script_persist:
  assumes ch: "list_ex is_cache_write (new_events w (snd (auth_script lib http_get py_repr config w))) \<or>
    token_cache (snd (auth_script lib http_get py_repr config w)) \<noteq> token_cache w"
  shows "AcquireTokenByDeviceFlow \<in>
           set (new_events w (snd (auth_script lib http_get py_repr config w))) \<and>
         Print (''SUCCESS! Token saved.'' @ [CHR 0x0A]) \<in>
           set (new_events w (snd (auth_script lib http_get py_repr config w)))"
proof (cases "config ''client_id''")
  case None
  with ch show ?thesis by (simp add: auth_script_def new_events_def)
next
  case cid: (Some cid)
  show ?thesis
  proof (cases "config ''tenant_id''")
    case None
    with ch cid show ?thesis by (simp add: auth_script_def new_events_def)
  next
    case tid: (Some tid)
    let ?b = "\<lparr>client_id = cid, authority = ''https://login.microsoftonline.com/'' @ tid,
               cache = new_cache lib\<rparr>"
    let ?flow = "initiate_device_flow lib ?b [''Mail.Send'', ''Mail.ReadWrite'', ''User.Read'']"
    show ?thesis
    proof (cases "?flow ''verification_uri''")
      case None
      with ch cid tid show ?thesis
        by (simp add: auth_script_def new_events_def Let_def emit_def prints_def)
    next
      case uri: (Some uri)
      show ?thesis
      proof (cases "?flow ''user_code''")
        case None
        with ch cid tid uri show ?thesis
          by (simp add: auth_script_def new_events_def Let_def emit_def prints_def)
      next
        case code: (Some code)
        obtain result c where dev: "acquire_token_by_device_flow lib ?b ?flow = (result, c)"
          by (cases "acquire_token_by_device_flow lib ?b ?flow") auto
        show ?thesis
        proof (cases "result ''access_token''")
          case None
          with ch cid tid uri code dev show ?thesis
            by (simp add: auth_script_def new_events_def Let_def emit_def prints_def)
        next
          case (Some tok)
          with cid tid uri code dev show ?thesis
            by (simp add: auth_script_def new_events_def Let_def emit_def prints_def)
        qed
      qed
    qed
  qed
qed

lemma example_auth_success:
  "token_cache (snd (auth_script (example_lib [''access_token'' \<mapsto> ''device-token''])
      example_inbox example_repr example_config signed_out_world)) = Some ''cache-1''"
  by (simp add: auth_script_def example_lib_def example_config_def example_inbox_def
        signed_out_world_def Let_def emit_def prints_def)

text \<open>
  C9, as the code has it. When the loaded cache holds at least one account and the
  silent acquisition for the scopes \<open>Mail.Send\<close>, \<open>Mail.ReadWrite\<close>, \<open>User.Read\<close>
  yields a token, \<open>get_access_token\<close> returns that token; the only effect of the call
  is the silent acquisition itself, so no device code flow is initiated, nothing is
  printed and the cache file is not written. After a call that obtained its token
  through the device code flow, the cache file holds the serialisation of the cache that
  the exchange returned, and the next call builds its application from exactly that
  blob. The next call takes the silent path when the library finds an account in that
  cache and the silent acquisition yields a token; when the silent attempt yields
  nothing, it initiates another device code flow.
\<close>

theorem silent_path_no_interactive:
  "(get_msal_app lib config w = Inr a \<and> get_accounts lib a = account # others \<and>
    acquire_token_silent lib a [''Mail.Send'', ''Mail.ReadWrite'', ''User.Read''] account = (Some d, c) \<and>
    d ''access_token'' = Some tok \<longrightarrow>
      get_access_token lib config w =
        (Inr (Some tok),
         w\<lparr>trace := trace w @
              [AcquireTokenSilent [''Mail.Send'', ''Mail.ReadWrite'', ''User.Read''] account]\<rparr>) \<and>
      \<not> list_ex is_interactive (new_events w (snd (get_access_token lib config w)))) \<and>
   (get_msal_app lib config wi = Inr ai \<and> silent_token lib ai wi = (None, aj, wj) \<and>
    initiate_device_flow lib aj SCOPES = flow \<and> flow ''user_code'' = Some code \<and>
    flow ''verification_uri'' = Some uri \<and>
    acquire_token_by_device_flow lib aj flow = (result, ci) \<and>
    result ''access_token'' = Some toki \<and>
    wn = snd (get_access_token lib config wi) \<and>
    an = ai\<lparr>cache := deserialize lib (new_cache lib) (serialize lib ci)\<rparr> \<longrightarrow>
      fst (get_access_token lib config wi) = Inr (Some toki) \<and>
      list_ex is_interactive (new_events wi wn) \<and>
      token_cache wn = Some (serialize lib ci) \<and>
      get_msal_app lib config wn = Inr an \<and>
      (get_accounts lib an = accountn # othersn \<and>
       acquire_token_silent lib an [''Mail.Send'', ''Mail.ReadWrite'', ''User.Read''] accountn =
         (Some dn, cn) \<and>
       dn ''access_token'' = Some tokn \<longrightarrow>
         get_access_token lib config wn =
           (Inr (Some tokn),
            wn\<lparr>trace := trace wn @
                 [AcquireTokenSilent [''Mail.Send'', ''Mail.ReadWrite'', ''User.Read''] accountn]\<rparr>) \<and>
         \<not> list_ex is_interactive (new_events wn (snd (get_access_token lib config wn)))) \<and>
      (silent_token lib an wn = (None, am, wm) \<longrightarrow>
         InitiateDeviceFlow SCOPES \<in> set (new_events wn (snd (get_access_token lib config wn)))))"
proof (intro conjI impI)
  assume h: "get_msal_app lib config w = Inr a \<and> get_accounts lib a = account # others \<and>
    acquire_token_silent lib a [''Mail.Send'', ''Mail.ReadWrite'', ''User.Read''] account = (Some d, c) \<and>
    d ''access_token'' = Some tok"
  then have run: "get_access_token lib config w =
      (Inr (Some tok), w\<lparr>trace := trace w @ [AcquireTokenSilent SCOPES account]\<rparr>)"
    by (intro silent_path_run [where d = d and c = c and others = others and a = a])
       (simp_all add: SCOPES_def)
  show "get_access_token lib config w =
        (Inr (Some tok),
         w\<lparr>trace := trace w @
              [AcquireTokenSilent [''Mail.Send'', ''Mail.ReadWrite'', ''User.Read''] account]\<rparr>)"
    using run by (simp add: SCOPES_def)
  show "\<not> list_ex is_interactive (new_events w (snd (get_access_token lib config w)))"
    by (simp add: run new_events_def)
next
  assume h: "get_msal_app lib config wi = Inr ai \<and> silent_token lib ai wi = (None, aj, wj) \<and>
    initiate_device_flow lib aj SCOPES = flow \<and> flow ''user_code'' = Some code \<and>
    flow ''verification_uri'' = Some uri \<and>
    acquire_token_by_device_flow lib aj flow = (result, ci) \<and>
    result ''access_token'' = Some toki \<and>
    wn = snd (get_access_token lib config wi) \<and>
    an = ai\<lparr>cache := deserialize lib (new_cache lib) (serialize lib ci)\<rparr>"
  then have app: "get_msal_app lib config wi = Inr ai"
    and sil: "silent_token lib ai wi = (None, aj, wj)" by simp_all
  from h have run: "get_access_token lib config wi =
      (Inr (Some toki),
       wj\<lparr>token_cache := Some (serialize lib ci),
           trace := trace wj @
             [InitiateDeviceFlow SCOPES,
              Print ([CHR 0x0A] @ replicate 60 CHR ''=''),
              Print ''AUTHENTICATE WITH MICROSOFT'',
              Print (replicate 60 CHR ''=''),
              Print ([CHR 0x0A] @ ''1. Go to: '' @ uri),
              Print (''2. Enter code: '' @ code),
              Print ([CHR 0x0A] @ ''Waiting for authentication...'' @ [CHR 0x0A]),
              AcquireTokenByDeviceFlow,
              WriteTokenCache (serialize lib ci),
              Print (''Authentication successful!'' @ [CHR 0x0A])]\<rparr>)"
    by (intro device_success_run [of lib config wi ai aj wj flow code uri result ci toki])
       simp_all
  from silent_token_frame [OF sil] obtain evs where t: "trace wj = trace wi @ evs" by blast
  from h run have tc: "token_cache wn = Some (serialize lib ci)" by simp
  from h have an: "an = ai\<lparr>cache := deserialize lib (new_cache lib) (serialize lib ci)\<rparr>" by simp
  have appn: "get_msal_app lib config wn = Inr an"
    unfolding an by (rule get_msal_app_reload [OF app tc])
  show "fst (get_access_token lib config wi) = Inr (Some toki)" by (simp add: run)
  show "list_ex is_interactive (new_events wi wn)"
    using h t by (simp add: run new_events_def)
  show "token_cache wn = Some (serialize lib ci)" by (rule tc)
  show "get_msal_app lib config wn = Inr an" by (rule appn)
  {
    assume s: "get_accounts lib an = accountn # othersn \<and>
       acquire_token_silent lib an [''Mail.Send'', ''Mail.ReadWrite'', ''User.Read''] accountn =
         (Some dn, cn) \<and>
       dn ''access_token'' = Some tokn"
    have runn: "get_access_token lib config wn =
      (Inr (Some tokn), wn\<lparr>trace := trace wn @ [AcquireTokenSilent SCOPES accountn]\<rparr>)"
      using appn s
      by (intro silent_path_run [where d = dn and c = cn and others = othersn and a = an])
         (simp_all add: SCOPES_def)
    show "get_access_token lib config wn =
           (Inr (Some tokn),
            wn\<lparr>trace := trace wn @
                 [AcquireTokenSilent [''Mail.Send'', ''Mail.ReadWrite'', ''User.Read''] accountn]\<rparr>)"
      using runn by (simp add: SCOPES_def)
    show "\<not> list_ex is_interactive (new_events wn (snd (get_access_token lib config wn)))"
      by (simp add: runn new_events_def)
  }
  {
    assume m: "silent_token lib an wn = (None, am, wm)"
    show "InitiateDeviceFlow SCOPES \<in> set (new_events wn (snd (get_access_token lib config wn)))"
      by (rule silent_miss_starts_device_flow [OF appn m])
  }
qed

theorem silent_path_no_interactive_witness:
  "get_access_token (example_lib Map.empty) example_config (signed_in_world None) =
     (Inr (Some ''silent-token''),
      (signed_in_world None)
        \<lparr>trace := [AcquireTokenSilent [''Mail.Send'', ''Mail.ReadWrite'', ''User.Read''] ''user'']\<rparr>) \<and>
   fst (get_access_token (example_lib [''access_token'' \<mapsto> ''device-token'']) example_config
          signed_out_world) = Inr (Some ''device-token'') \<and>
   list_ex is_interactive (new_events signed_out_world
      (snd (get_access_token (example_lib [''access_token'' \<mapsto> ''device-token'']) example_config
          signed_out_world))) \<and>
   token_cache (snd (get_access_token (example_lib [''access_token'' \<mapsto> ''device-token''])
          example_config signed_out_world)) = Some ''cache-1'' \<and>
   fst (get_access_token (example_lib [''access_token'' \<mapsto> ''device-token'']) example_config
          (snd (get_access_token (example_lib [''access_token'' \<mapsto> ''device-token''])
             example_config signed_out_world))) = Inr (Some ''silent-token'') \<and>
   \<not> list_ex is_interactive
      (new_events
         (snd (get_access_token (example_lib [''access_token'' \<mapsto> ''device-token''])
             example_config signed_out_world))
         (snd (get_access_token (example_lib [''access_token'' \<mapsto> ''device-token'']) example_config
            (snd (get_access_token (example_lib [''access_token'' \<mapsto> ''device-token''])
               example_config signed_out_world))))) \<and>
   InitiateDeviceFlow SCOPES \<in> set
      (new_events
         (snd (get_access_token (expired_lib [''access_token'' \<mapsto> ''device-token''])
             example_config signed_out_world))
         (snd (get_access_token (expired_lib [''access_token'' \<mapsto> ''device-token''])
            example_config
            (snd (get_access_token (expired_lib [''access_token'' \<mapsto> ''device-token''])
               example_config signed_out_world)))))"
proof -
  let ?dev = "[''access_token'' \<mapsto> ''device-token'']"
  let ?lib = "example_lib ?dev"
  let ?exp = "expired_lib ?dev"
  let ?scopes = "[''Mail.Send'', ''Mail.ReadWrite'', ''User.Read'']"
  let ?tok = "[''access_token'' \<mapsto> ''silent-token'']"
  let ?flow = "[''user_code'' \<mapsto> ''ABC123'',
                ''verification_uri'' \<mapsto> ''https://microsoft.com/devicelogin'']"
  let ?r = "\<lparr>client_id = ''abc'', authority = ''https://login.microsoftonline.com/def'',
             cache = ''cache-0''\<rparr>"
  let ?p = "\<lparr>client_id = ''abc'', authority = ''https://login.microsoftonline.com/def'',
              cache = []\<rparr>"
  let ?q = "\<lparr>client_id = ''abc'', authority = ''https://login.microsoftonline.com/def'',
              cache = ''cache-1''\<rparr>"
  let ?wa = "snd (get_access_token ?lib example_config signed_out_world)"
  let ?wb = "snd (get_access_token ?exp example_config signed_out_world)"
  have h1: "get_msal_app (example_lib Map.empty) example_config (signed_in_world None) = Inr ?r \<and>
      get_accounts (example_lib Map.empty) ?r = ''user'' # [] \<and>
      acquire_token_silent (example_lib Map.empty) ?r ?scopes ''user'' = (Some ?tok, ''cache-0'') \<and>
      ?tok ''access_token'' = Some ''silent-token''"
    by (simp add: get_msal_app_def example_lib_def example_config_def signed_in_world_def)
  from silent_path_no_interactive
    [where lib = "example_lib Map.empty" and config = example_config
       and w = "signed_in_world None" and a = ?r and account = "''user''" and others = "[]"
       and d = ?tok and c = "''cache-0''" and tok = "''silent-token''"
       and wi = signed_out_world and ai = ?p
       and aj = ?p and wj = signed_out_world and flow = ?flow and code = "''ABC123''"
       and uri = "''https://microsoft.com/devicelogin''" and result = ?dev
       and ci = "''cache-1''" and toki = "''device-token''" and wn = ?wa and an = ?q
       and accountn = "''user''" and othersn = "[]" and dn = ?tok and cn = "''cache-1''"
       and tokn = "''silent-token''" and am = ?q and wm = ?wa] h1
  have part1: "get_access_token (example_lib Map.empty) example_config (signed_in_world None) =
     (Inr (Some ''silent-token''),
      (signed_in_world None)\<lparr>trace := [AcquireTokenSilent ?scopes ''user'']\<rparr>)"
    by (simp add: signed_in_world_def)
  have h2: "get_msal_app ?lib example_config signed_out_world = Inr ?p \<and>
      silent_token ?lib ?p signed_out_world = (None, ?p, signed_out_world) \<and>
      initiate_device_flow ?lib ?p SCOPES = ?flow \<and> ?flow ''user_code'' = Some ''ABC123'' \<and>
      ?flow ''verification_uri'' = Some ''https://microsoft.com/devicelogin'' \<and>
      acquire_token_by_device_flow ?lib ?p ?flow = (?dev, ''cache-1'') \<and>
      ?dev ''access_token'' = Some ''device-token'' \<and>
      ?wa = snd (get_access_token ?lib example_config signed_out_world) \<and>
      ?q = ?p\<lparr>cache := deserialize ?lib (new_cache ?lib) (serialize ?lib ''cache-1'')\<rparr>"
    by (simp add: get_msal_app_def example_lib_def example_config_def signed_out_world_def
          silent_token_def)
  have s2: "get_accounts ?lib ?q = ''user'' # [] \<and>
      acquire_token_silent ?lib ?q ?scopes ''user'' = (Some ?tok, ''cache-1'') \<and>
      ?tok ''access_token'' = Some ''silent-token''"
    by (simp add: example_lib_def)
  have ser: "serialize ?lib ''cache-1'' = ''cache-1''" by (simp add: example_lib_def)
  from silent_path_no_interactive
    [where lib = ?lib and config = example_config and wi = signed_out_world and ai = ?p
       and aj = ?p and wj = signed_out_world and flow = ?flow and code = "''ABC123''"
       and uri = "''https://microsoft.com/devicelogin''" and result = ?dev
       and ci = "''cache-1''" and toki = "''device-token''" and wn = ?wa and an = ?q
       and accountn = "''user''" and othersn = "[]" and dn = ?tok and cn = "''cache-1''"
       and tokn = "''silent-token''" and am = ?q and wm = ?wa
       and w = "signed_in_world None" and a = ?r and account = "''user''" and others = "[]"
       and d = ?tok and c = "''cache-0''" and tok = "''silent-token''"] h2 s2 ser
  have part2: "fst (get_access_token ?lib example_config signed_out_world) = Inr (Some ''device-token'') \<and>
      list_ex is_interactive (new_events signed_out_world ?wa) \<and>
      token_cache ?wa = Some ''cache-1'' \<and>
      fst (get_access_token ?lib example_config ?wa) = Inr (Some ''silent-token'') \<and>
      \<not> list_ex is_interactive (new_events ?wa (snd (get_access_token ?lib example_config ?wa)))"
    by (simp add: new_events_def)
  have h3: "get_msal_app ?exp example_config signed_out_world = Inr ?p \<and>
      silent_token ?exp ?p signed_out_world = (None, ?p, signed_out_world) \<and>
      initiate_device_flow ?exp ?p SCOPES = ?flow \<and> ?flow ''user_code'' = Some ''ABC123'' \<and>
      ?flow ''verification_uri'' = Some ''https://microsoft.com/devicelogin'' \<and>
      acquire_token_by_device_flow ?exp ?p ?flow = (?dev, ''cache-1'') \<and>
      ?dev ''access_token'' = Some ''device-token'' \<and>
      ?wb = snd (get_access_token ?exp example_config signed_out_world) \<and>
      ?q = ?p\<lparr>cache := deserialize ?exp (new_cache ?exp) (serialize ?exp ''cache-1'')\<rparr>"
    by (simp add: get_msal_app_def expired_lib_def example_lib_def example_config_def
          signed_out_world_def silent_token_def)
  have s3: "silent_token ?exp ?q ?wb = (None, ?q, emit (AcquireTokenSilent SCOPES ''user'') ?wb)"
    by (simp add: silent_token_def expired_lib_def example_lib_def)
  from silent_path_no_interactive
    [where lib = ?exp and config = example_config and wi = signed_out_world and ai = ?p
       and aj = ?p and wj = signed_out_world and flow = ?flow and code = "''ABC123''"
       and uri = "''https://microsoft.com/devicelogin''" and result = ?dev
       and ci = "''cache-1''" and toki = "''device-token''" and wn = ?wb and an = ?q
       and am = ?q and wm = "emit (AcquireTokenSilent SCOPES ''user'') ?wb"
       and accountn = "''user''" and othersn = "[]" and dn = ?tok and cn = "''cache-1''"
       and tokn = "''silent-token''"
       and w = "signed_in_world None" and a = ?r and account = "''user''" and others = "[]"
       and d = ?tok and c = "''cache-0''" and tok = "''silent-token''"] h3 s3
  have part3: "InitiateDeviceFlow SCOPES \<in> set
      (new_events ?wb (snd (get_access_token ?exp example_config ?wb)))"
    by simp
  from part1 part2 part3 show ?thesis by simp
qed

text \<open>
  C9 does not hold without the condition on the second call. Here the device code
  exchange succeeds and the cache is persisted, the refresh material is no longer good
  at the next call, so that the silent acquisition finds no token, and the next call
  initiates a device code flow again.
\<close>

theorem second_call_interactive_again:
  "fst (get_access_token (expired_lib [''access_token'' \<mapsto> ''device-token'']) example_config
          signed_out_world) = Inr (Some ''device-token'') \<and>
   list_ex is_interactive (new_events signed_out_world
      (snd (get_access_token (expired_lib [''access_token'' \<mapsto> ''device-token'']) example_config
          signed_out_world))) \<and>
   token_cache (snd (get_access_token (expired_lib [''access_token'' \<mapsto> ''device-token''])
          example_config signed_out_world)) = Some ''cache-1'' \<and>
   list_ex is_interactive
      (new_events
         (snd (get_access_token (expired_lib [''access_token'' \<mapsto> ''device-token''])
             example_config signed_out_world))
         (snd (get_access_token (expired_lib [''access_token'' \<mapsto> ''device-token''])
            example_config
            (snd (get_access_token (expired_lib [''access_token'' \<mapsto> ''device-token''])
               example_config signed_out_world)))))"
  unfolding expired_device_success
  by (simp add: get_access_token_def get_msal_app_def expired_lib_def example_lib_def
        example_config_def signed_out_world_def silent_token_def device_code_flow_def emit_def
        prints_def new_events_def)

text \<open>
  C8, as the code has it. When the device code exchange ends without a token,
  \<open>get_access_token\<close> returns \<open>None\<close>, and the last line it prints is \<open>ERROR: \<close>
  followed by the provider's \<open>error_description\<close> (or \<open>Authentication failed\<close> when
  the provider gave none); the script \<open>auth.py\<close> prints \<open>FAILED: \<close> followed by
  the description (or the whole result). In both, the cache file is left as it was and
  no write of it occurs. For every run of either: the cache file is written, or differs
  afterwards, only if the device code exchange took place and gave a token.
\<close>

theorem device_flow_failure_keeps_cache:
  "(get_msal_app lib config w = Inr a \<and> silent_token lib a w = (None, aj, wj) \<and>
    initiate_device_flow lib aj SCOPES = flow \<and> flow ''user_code'' = Some code \<and>
    flow ''verification_uri'' = Some uri \<and>
    acquire_token_by_device_flow lib aj flow = (result, c) \<and> result ''access_token'' = None \<longrightarrow>
      fst (get_access_token lib config w) = Inr None \<and>
      last (trace (snd (get_access_token lib config w))) =
        Print (''ERROR: '' @ dict_get result ''error_description'' ''Authentication failed'') \<and>
      token_cache (snd (get_access_token lib config w)) = token_cache w \<and>
      \<not> list_ex is_cache_write (new_events w (snd (get_access_token lib config w)))) \<and>
   (list_ex is_cache_write (new_events w (snd (get_access_token lib config w))) \<or>
    token_cache (snd (get_access_token lib config w)) \<noteq> token_cache w \<longrightarrow>
      (\<exists>tok. fst (get_access_token lib config w) = Inr (Some tok)) \<and>
      AcquireTokenByDeviceFlow \<in> set (new_events w (snd (get_access_token lib config w)))) \<and>
   (config ''client_id'' = Some cid \<and> config ''tenant_id'' = Some tid \<and>
    b = \<lparr>client_id = cid, authority = ''https://login.microsoftonline.com/'' @ tid,
         cache = new_cache lib\<rparr> \<and>
    initiate_device_flow lib b [''Mail.Send'', ''Mail.ReadWrite'', ''User.Read''] = sflow \<and>
    sflow ''verification_uri'' = Some suri \<and> sflow ''user_code'' = Some scode \<and>
    acquire_token_by_device_flow lib b sflow = (sresult, sc) \<and>
    sresult ''access_token'' = None \<longrightarrow>
      fst (auth_script lib http_get py_repr config w) = Inr () \<and>
      last (trace (snd (auth_script lib http_get py_repr config w))) =
        Print (''FAILED: '' @ (case sresult ''error_description'' of
                                 None \<Rightarrow> py_repr sresult | Some desc \<Rightarrow> desc)) \<and>
      token_cache (snd (auth_script lib http_get py_repr config w)) = token_cache w \<and>
      \<not> list_ex is_cache_write (new_events w (snd (auth_script lib http_get py_repr config w)))) \<and>
   (list_ex is_cache_write (new_events w (snd (auth_script lib http_get py_repr config w))) \<or>
    token_cache (snd (auth_script lib http_get py_repr config w)) \<noteq> token_cache w \<longrightarrow>
      AcquireTokenByDeviceFlow \<in>
        set (new_events w (snd (auth_script lib http_get py_repr config w))) \<and>
      Print (''SUCCESS! Token saved.'' @ [CHR 0x0A]) \<in>
        set (new_events w (snd (auth_script lib http_get py_repr config w))))"
proof (intro conjI impI)
  assume h: "get_msal_app lib config w = Inr a \<and> silent_token lib a w = (None, aj, wj) \<and>
    initiate_device_flow lib aj SCOPES = flow \<and> flow ''user_code'' = Some code \<and>
    flow ''verification_uri'' = Some uri \<and>
    acquire_token_by_device_flow lib aj flow = (result, c) \<and> result ''access_token'' = None"
  then have run: "get_access_token lib config w =
      (Inr None,
       wj\<lparr>trace := trace wj @
          [InitiateDeviceFlow SCOPES,
           Print ([CHR 0x0A] @ replicate 60 CHR ''=''),
           Print ''AUTHENTICATE WITH MICROSOFT'',
           Print (replicate 60 CHR ''=''),
           Print ([CHR 0x0A] @ ''1. Go to: '' @ uri),
           Print (''2. Enter code: '' @ code),
           Print ([CHR 0x0A] @ ''Waiting for authentication...'' @ [CHR 0x0A]),
           AcquireTokenByDeviceFlow,
           Print (''ERROR: '' @ dict_get result ''error_description'' ''Authentication failed'')]\<rparr>)"
    by (simp add: get_access_token_def device_code_flow_def Let_def emit_def prints_def)
  from h have s: "silent_token lib a w = (None, aj, wj)" by simp
  from silent_token_frame [OF s] obtain evs where
    f1: "token_cache wj = token_cache w" "trace wj = trace w @ evs"
        "\<not> list_ex is_cache_write evs"
    by blast
  show "fst (get_access_token lib config w) = Inr None" by (simp add: run)
  show "last (trace (snd (get_access_token lib config w))) =
        Print (''ERROR: '' @ dict_get result ''error_description'' ''Authentication failed'')"
    by (simp add: run)
  show "token_cache (snd (get_access_token lib config w)) = token_cache w"
    by (simp add: run f1)
  show "\<not> list_ex is_cache_write (new_events w (snd (get_access_token lib config w)))"
    using f1 by (simp add: run new_events_def list_ex_iff)
next
  assume ch: "list_ex is_cache_write (new_events w (snd (get_access_token lib config w))) \<or>
    token_cache (snd (get_access_token lib config w)) \<noteq> token_cache w"
  have run: "get_access_token lib config w =
      (fst (get_access_token lib config w), snd (get_access_token lib config w))" by simp
  from get_access_token_persist [OF run ch]
  show "\<exists>tok. fst (get_access_token lib config w) = Inr (Some tok)"
    and "AcquireTokenByDeviceFlow \<in> set (new_events w (snd (get_access_token lib config w)))"
    by blast+
next
  assume h: "config ''client_id'' = Some cid \<and> config ''tenant_id'' = Some tid \<and>
    b = \<lparr>client_id = cid, authority = ''https://login.microsoftonline.com/'' @ tid,
         cache = new_cache lib\<rparr> \<and>
    initiate_device_flow lib b [''Mail.Send'', ''Mail.ReadWrite'', ''User.Read''] = sflow \<and>
    sflow ''verification_uri'' = Some suri \<and> sflow ''user_code'' = Some scode \<and>
    acquire_token_by_device_flow lib b sflow = (sresult, sc) \<and>
    sresult ''access_token'' = None"
  let ?b = "\<lparr>client_id = cid, authority = ''https://login.microsoftonline.com/'' @ tid,
         cache = new_cache lib\<rparr>"
  from h have hb: "b = ?b" by simp
  from h have f: "config ''client_id'' = Some cid" "config ''tenant_id'' = Some tid"
    "initiate_device_flow lib ?b [''Mail.Send'', ''Mail.ReadWrite'', ''User.Read''] = sflow"
    "sflow ''verification_uri'' = Some suri" "sflow ''user_code'' = Some scode"
    "acquire_token_by_device_flow lib ?b sflow = (sresult, sc)"
    "sresult ''access_token'' = None"
    unfolding hb by simp_all
  have run: "auth_script lib http_get py_repr config w =
      (Inr (),
       w\<lparr>trace := trace w @
          [Print ([CHR 0x0A] @ replicate 50 CHR ''=''),
           Print ''CANONIC EMAIL AUTHENTICATION'',
           Print (replicate 50 CHR ''=''),
           InitiateDeviceFlow [''Mail.Send'', ''Mail.ReadWrite'', ''User.Read''],
           Print ([CHR 0x0A] @ ''1. Go to: '' @ suri),
           Print (''2. Enter code: '' @ scode),
           Print ([CHR 0x0A] @ ''Opening browser...''),
           OpenBrowser suri,
           Print ([CHR 0x0A] @ ''Waiting for you to authenticate...'' @ [CHR 0x0A]),
           AcquireTokenByDeviceFlow,
           Print (''FAILED: '' @ (case sresult ''error_description'' of
                                    None \<Rightarrow> py_repr sresult | Some desc \<Rightarrow> desc))]\<rparr>)"
    unfolding auth_script_def using f by (simp add: Let_def emit_def prints_def)
  show "fst (auth_script lib http_get py_repr config w) = Inr ()" by (simp add: run)
  show "last (trace (snd (auth_script lib http_get py_repr config w))) =
        Print (''FAILED: '' @ (case sresult ''error_description'' of
                                 None \<Rightarrow> py_repr sresult | Some desc \<Rightarrow> desc))"
    by (simp add: run)
  show "token_cache (snd (auth_script lib http_get py_repr config w)) = token_cache w"
    by (simp add: run)
  show "\<not> list_ex is_cache_write (new_events w (snd (auth_script lib http_get py_repr config w)))"
    by (simp add: run new_events_def)
next
  assume ch: "list_ex is_cache_write (new_events w (snd (auth_script lib http_get py_repr config w))) \<or>
    token_cache (snd (auth_script lib http_get py_repr config w)) \<noteq> token_cache w"
  from auth_script_persist [OF ch]
  show "AcquireTokenByDeviceFlow \<in>
        set (new_events w (snd (auth_script lib http_get py_repr config w)))"
    and "Print (''SUCCESS! Token saved.'' @ [CHR 0x0A]) \<in>
        set (new_events w (snd (auth_script lib http_get py_repr config w)))"
    by blast+
qed

theorem device_flow_failure_keeps_cache_witness:
  "fst (get_access_token
          (example_lib [''error'' \<mapsto> ''authorization_declined'',
                        ''error_description'' \<mapsto> ''The user denied the request''])
          example_config signed_out_world) = Inr None \<and>
   last (trace (snd (get_access_token
          (example_lib [''error'' \<mapsto> ''authorization_declined'',
                        ''error_description'' \<mapsto> ''The user denied the request''])
          example_config signed_out_world))) = Print ''ERROR: The user denied the request'' \<and>
   token_cache (snd (get_access_token
          (example_lib [''error'' \<mapsto> ''authorization_declined'',
                        ''error_description'' \<mapsto> ''The user denied the request''])
          example_config signed_out_world)) = None \<and>
   token_cache (snd (get_access_token (example_lib [''access_token'' \<mapsto> ''device-token''])
          example_config signed_out_world)) = Some ''cache-1'' \<and>
   AcquireTokenByDeviceFlow \<in> set (new_events signed_out_world
      (snd (get_access_token (example_lib [''access_token'' \<mapsto> ''device-token''])
          example_config signed_out_world))) \<and>
   fst (auth_script
          (example_lib [''error'' \<mapsto> ''authorization_declined'',
                        ''error_description'' \<mapsto> ''The user denied the request''])
          example_inbox example_repr example_config signed_out_world) = Inr () \<and>
   last (trace (snd (auth_script
          (example_lib [''error'' \<mapsto> ''authorization_declined'',
                        ''error_description'' \<mapsto> ''The user denied the request''])
          example_inbox example_repr example_config signed_out_world))) =
     Print ''FAILED: The user denied the request'' \<and>
   token_cache (snd (auth_script
          (example_lib [''error'' \<mapsto> ''authorization_declined'',
                        ''error_description'' \<mapsto> ''The user denied the request''])
          example_inbox example_repr example_config signed_out_world)) = None \<and>
   token_cache (snd (auth_script (example_lib [''access_token'' \<mapsto> ''device-token''])
          example_inbox example_repr example_config signed_out_world)) = Some ''cache-1'' \<and>
   AcquireTokenByDeviceFlow \<in> set (new_events signed_out_world
      (snd (auth_script (example_lib [''access_token'' \<mapsto> ''device-token''])
          example_inbox example_repr example_config signed_out_world)))"
proof -
  let ?denied = "[''error'' \<mapsto> ''authorization_declined'',
                  ''error_description'' \<mapsto> ''The user denied the request'']"
  let ?dev = "[''access_token'' \<mapsto> ''device-token'']"
  let ?flow = "[''user_code'' \<mapsto> ''ABC123'',
                ''verification_uri'' \<mapsto> ''https://microsoft.com/devicelogin'']"
  let ?p = "\<lparr>client_id = ''abc'', authority = ''https://login.microsoftonline.com/def'',
             cache = []\<rparr>"
  have h: "get_msal_app (example_lib ?denied) example_config signed_out_world = Inr ?p \<and>
      silent_token (example_lib ?denied) ?p signed_out_world = (None, ?p, signed_out_world) \<and>
      initiate_device_flow (example_lib ?denied) ?p SCOPES = ?flow \<and>
      ?flow ''user_code'' = Some ''ABC123'' \<and>
      ?flow ''verification_uri'' = Some ''https://microsoft.com/devicelogin'' \<and>
      acquire_token_by_device_flow (example_lib ?denied) ?p ?flow = (?denied, ''cache-1'') \<and>
      ?denied ''access_token'' = None"
    by (simp add: get_msal_app_def example_lib_def example_config_def signed_out_world_def
          silent_token_def)
  have g: "example_config ''client_id'' = Some ''abc'' \<and> example_config ''tenant_id'' = Some ''def'' \<and>
      ?p = \<lparr>client_id = ''abc'', authority = ''https://login.microsoftonline.com/'' @ ''def'',
            cache = new_cache (example_lib ?denied)\<rparr> \<and>
      initiate_device_flow (example_lib ?denied) ?p
        [''Mail.Send'', ''Mail.ReadWrite'', ''User.Read''] = ?flow"
    by (simp add: example_lib_def example_config_def)
  have d: "dict_get ?denied ''error_description'' ''Authentication failed'' =
      ''The user denied the request''"
    by (simp add: dict_get_def)
  have n: "token_cache signed_out_world = None" by (simp add: signed_out_world_def)
  have c: "token_cache (snd (get_access_token (example_lib ?dev) example_config signed_out_world)) =
      Some ''cache-1''"
    by (simp add: example_device_success)
  note thm1 = device_flow_failure_keeps_cache
    [where lib = "example_lib ?denied" and config = example_config and w = signed_out_world
       and a = ?p and aj = ?p and wj = signed_out_world and flow = ?flow and code = "''ABC123''"
       and uri = "''https://microsoft.com/devicelogin''" and result = ?denied
       and c = "''cache-1''" and cid = "''abc''" and tid = "''def''" and b = ?p
       and sflow = ?flow and suri = "''https://microsoft.com/devicelogin''"
       and scode = "''ABC123''" and sresult = ?denied and sc = "''cache-1''"
       and http_get = example_inbox and py_repr = example_repr]
  from thm1 h g d n
  have first: "fst (get_access_token (example_lib ?denied) example_config signed_out_world) = Inr None \<and>
      last (trace (snd (get_access_token (example_lib ?denied) example_config signed_out_world))) =
        Print ''ERROR: The user denied the request'' \<and>
      token_cache (snd (get_access_token (example_lib ?denied) example_config signed_out_world)) = None \<and>
      fst (auth_script (example_lib ?denied) example_inbox example_repr example_config
             signed_out_world) = Inr () \<and>
      last (trace (snd (auth_script (example_lib ?denied) example_inbox example_repr example_config
             signed_out_world))) = Print ''FAILED: The user denied the request'' \<and>
      token_cache (snd (auth_script (example_lib ?denied) example_inbox example_repr example_config
             signed_out_world)) = None"
    by simp
  note thm2 = device_flow_failure_keeps_cache
    [where lib = "example_lib ?dev" and config = example_config and w = signed_out_world
       and a = ?p and aj = ?p and wj = signed_out_world and flow = ?flow and code = "''ABC123''"
       and uri = "''https://microsoft.com/devicelogin''" and result = ?dev
       and c = "''cache-1''" and cid = "''abc''" and tid = "''def''" and b = ?p
       and sflow = ?flow and suri = "''https://microsoft.com/devicelogin''"
       and scode = "''ABC123''" and sresult = ?dev and sc = "''cache-1''"
       and http_get = example_inbox and py_repr = example_repr]
  from thm2 c n example_auth_success
  have second: "AcquireTokenByDeviceFlow \<in> set (new_events signed_out_world
        (snd (get_access_token (example_lib ?dev) example_config signed_out_world))) \<and>
      AcquireTokenByDeviceFlow \<in> set (new_events signed_out_world
        (snd (auth_script (example_lib ?dev) example_inbox example_repr example_config
           signed_out_world)))"
    by simp
  from first second c example_auth_success show ?thesis by simp
qed

text \<open>
  C8 does not hold for the value returned: \<open>get_access_token\<close> returns the same
  \<open>None\<close> whatever the provider's description is, and when there is none; the
  description is in the printed line only.
\<close>

theorem get_access_token_returns_bare_none:
  "fst (get_access_token (example_lib [''error_description'' \<mapsto> ''The user denied the request''])
          example_config signed_out_world) = Inr None \<and>
   fst (get_access_token (example_lib [''error_description'' \<mapsto> ''The code has expired''])
          example_config signed_out_world) = Inr None \<and>
   fst (get_access_token (example_lib Map.empty) example_config signed_out_world) = Inr None"
  by (simp add: get_access_token_def get_msal_app_def example_lib_def example_config_def
        signed_out_world_def silent_token_def device_code_flow_def emit_def prints_def)

section \<open>The mail sender\<close>

lemma example_strftime: "strftime (example_clock n) = ''20240101-000000''"
  by (simp add: strftime_def example_clock_def zpad_def show_nat.simps)

lemma example_isoformat: "isoformat (example_clock 0) = ''2024-01-01T00:00:00''"
  by (simp add: isoformat_def example_clock_def zpad_def show_nat.simps)

lemmas example_send_defs =
  Let_def emit_def prints_def utcnow_def write_sent_def
  example_provider_def send_email_file_def send_email_entry_def example_strftime
  example_isoformat new_events_def utf8_length_def NAME_MAX_def

text \<open>
  C1. \<open>send_email\<close> never runs the validator. With an empty recipient the
  validator fails the send context with \<open>Missing required field: to\<close>, and
  \<open>send_email\<close> still posts the message to the mail provider; the validator's reason
  appears nowhere in its output. With the sent directory missing the validator does not
  pass either, and the message is posted all the same.
\<close>

theorem send_email_skips_gate:
  "validate fromisoformat
     [''to'' \<mapsto> PStr [], ''subject'' \<mapsto> PStr ''Hi'', ''body'' \<mapsto> PStr ''x'',
      ''timestamp'' \<mapsto> PStr ''2024-01-01T00:00:00Z''] (signed_in_world (Some Map.empty)) =
     Inr \<lparr>status = ''fail'', reason = ''Missing required field: to''\<rparr> \<and>
   send_email (example_lib Map.empty) (example_provider 400 ''Bad Request'') example_clock
       [] ''Hi'' ''x'' example_config (signed_in_world (Some Map.empty)) =
     (Inr False,
      (signed_in_world (Some Map.empty))
        \<lparr>trace := [AcquireTokenSilent SCOPES ''user'',
                   Post ''https://graph.microsoft.com/v1.0/me/sendMail''
                     [(''Authorization'', ''Bearer silent-token''),
                      (''Content-Type'', ''application/json'')]
                     \<lparr>msg_subject = ''Hi'', msg_content_type = ''Text'', msg_content = ''x'',
                      msg_to_recipients = [[]], msg_save_to_sent_items = True\<rparr>,
                   Print ''ERROR: 400 - Bad Request'']\<rparr>) \<and>
   validate fromisoformat
     [''to'' \<mapsto> PStr ''a@b.com'', ''subject'' \<mapsto> PStr ''Hi'', ''body'' \<mapsto> PStr ''x'',
      ''timestamp'' \<mapsto> PStr ''2024-01-01T00:00:00Z''] (signed_in_world None) \<noteq>
     Inr \<lparr>status = ''pass'', reason = ''Audit trail ready''\<rparr> \<and>
   list_ex is_post (trace (snd (send_email (example_lib Map.empty) (example_provider 202 [])
       example_clock ''a@b.com'' ''Hi'' ''x'' example_config (signed_in_world None))))"
  unfolding send_email_def example_token
  by (simp add: validate_def example_send_defs GRAPH_ENDPOINT_def send_message_def send_headers_def
        show_int_def show_nat.simps signed_in_world_def)

text \<open>
  C5, as the code has it. When a token was obtained and the mail provider answers with
  a status other than 202, \<open>send_email\<close> returns \<open>False\<close> after printing
  \<open>ERROR: <status> - <body>\<close> with the provider's status code and response body. The
  run posts exactly once (no retry), writes no audit record, and leaves the sent
  directory as it was.
\<close>

theorem send_email_rejected:
  assumes tok: "get_access_token lib config w = (Inr (Some token), w1)" "token \<noteq> []"
    and resp: "http_post (GRAPH_ENDPOINT @ ''/me/sendMail'') (send_headers token)
                 (send_message to subject body) = response"
    and rej: "status_code response \<noteq> 202"
  shows "send_email lib http_post clk to subject body config w =
           (Inr False,
            w1\<lparr>trace := trace w1 @
               [Post (GRAPH_ENDPOINT @ ''/me/sendMail'') (send_headers token) (send_message to subject body),
                Print (''ERROR: '' @ show_int (status_code response) @ '' - '' @ resp_text response)]\<rparr>)
         \<and> sent (snd (send_email lib http_post clk to subject body config w)) = sent w
         \<and> length (filter is_post (new_events w (snd (send_email lib http_post clk to subject body config w)))) = 1
         \<and> \<not> list_ex is_audit_write (new_events w (snd (send_email lib http_post clk to subject body config w)))"
proof -
  let ?ev = "[Post (GRAPH_ENDPOINT @ ''/me/sendMail'') (send_headers token) (send_message to subject body),
              Print (''ERROR: '' @ show_int (status_code response) @ '' - '' @ resp_text response)]"
  have run: "send_email lib http_post clk to subject body config w = (Inr False, w1\<lparr>trace := trace w1 @ ?ev\<rparr>)"
    using tok resp rej by (simp add: send_email_def Let_def emit_def prints_def)
  from get_access_token_frame [OF tok(1)] obtain evs where
    fr: "sent w1 = sent w" "trace w1 = trace w @ evs"
     and ne: "\<not> list_ex is_post evs" "\<not> list_ex is_audit_write evs" by blast
  have f0: "filter is_post evs = []" using ne(1) by (simp add: list_ex_iff filter_empty_conv)
  show ?thesis using fr ne f0 by (simp add: run new_events_def)
qed

theorem send_email_rejected_witness:
  "send_email (example_lib Map.empty) (example_provider 401 ''Unauthorized'') example_clock
     ''a@b.com'' ''Hi'' ''x'' example_config (signed_in_world (Some Map.empty)) =
     (Inr False,
      (signed_in_world (Some Map.empty))
        \<lparr>trace := [AcquireTokenSilent SCOPES ''user'',
                   Post (GRAPH_ENDPOINT @ ''/me/sendMail'') (send_headers ''silent-token'')
                     (send_message ''a@b.com'' ''Hi'' ''x''),
                   Print ''ERROR: 401 - Unauthorized'']\<rparr>) \<and>
   sent (snd (send_email (example_lib Map.empty) (example_provider 401 ''Unauthorized'') example_clock
     ''a@b.com'' ''Hi'' ''x'' example_config (signed_in_world (Some Map.empty)))) = Some Map.empty"
proof -
  have t: "get_access_token (example_lib Map.empty) example_config (signed_in_world (Some Map.empty)) =
      (Inr (Some ''silent-token''),
       (signed_in_world (Some Map.empty))\<lparr>trace := [AcquireTokenSilent SCOPES ''user'']\<rparr>)"
    by (simp add: get_access_token_def get_msal_app_def example_lib_def example_config_def
          signed_in_world_def silent_token_def emit_def)
  have n: "''silent-token'' \<noteq> []" by simp
  have r: "example_provider 401 ''Unauthorized'' (GRAPH_ENDPOINT @ ''/me/sendMail'')
             (send_headers ''silent-token'') (send_message ''a@b.com'' ''Hi'' ''x'') =
           \<lparr>status_code = 401, resp_text = ''Unauthorized''\<rparr>"
    by (simp add: example_provider_def)
  have s: "status_code \<lparr>status_code = 401, resp_text = ''Unauthorized''\<rparr> \<noteq> 202" by simp
  show ?thesis
    using send_email_rejected
      [where http_post = "example_provider 401 ''Unauthorized''" and to = "''a@b.com''"
         and subject = "''Hi''" and body = "''x''" and clk = example_clock, OF t n r s]
    by (simp add: show_int_def show_nat.simps signed_in_world_def)
qed

text \<open>
  C5 does not hold for the value returned: \<open>send_email\<close> returns the same
  \<open>False\<close> for a 401 and for a 503 with another body, and also when the sign-in
  failed and nothing was posted; status code and body are in the printed line only.
\<close>

theorem send_email_returns_bare_false:
  "fst (send_email (example_lib Map.empty) (example_provider 401 ''Unauthorized'') example_clock
          ''a@b.com'' ''Hi'' ''x'' example_config (signed_in_world (Some Map.empty))) = Inr False \<and>
   fst (send_email (example_lib Map.empty) (example_provider 503 ''Service Unavailable'')
          example_clock ''a@b.com'' ''Hi'' ''x'' example_config (signed_in_world (Some Map.empty))) =
     Inr False \<and>
   fst (send_email (example_lib [''error_description'' \<mapsto> ''The user denied the request''])
          (example_provider 202 []) example_clock ''a@b.com'' ''Hi'' ''x'' example_config
          signed_out_world) = Inr False"
proof -
  have d: "get_access_token (example_lib [''error_description'' \<mapsto> ''The user denied the request''])
             example_config signed_out_world =
           (Inr None, snd (get_access_token
              (example_lib [''error_description'' \<mapsto> ''The user denied the request''])
              example_config signed_out_world))"
    by (simp add: get_access_token_def get_msal_app_def example_lib_def example_config_def
          signed_out_world_def silent_token_def device_code_flow_def emit_def prints_def)
  have a: "fst (send_email (example_lib [''error_description'' \<mapsto> ''The user denied the request''])
          (example_provider 202 []) example_clock ''a@b.com'' ''Hi'' ''x'' example_config
          signed_out_world) = Inr False"
    unfolding send_email_def by (subst d) simp
  have b: "fst (send_email (example_lib Map.empty) (example_provider 401 ''Unauthorized'') example_clock
          ''a@b.com'' ''Hi'' ''x'' example_config (signed_in_world (Some Map.empty))) = Inr False \<and>
   fst (send_email (example_lib Map.empty) (example_provider 503 ''Service Unavailable'')
          example_clock ''a@b.com'' ''Hi'' ''x'' example_config (signed_in_world (Some Map.empty))) =
     Inr False"
    unfolding send_email_def example_token
    by (simp add: example_send_defs)
  from a b show ?thesis by blast
qed

lemma split_chr_nonempty: "split_chr c s \<noteq> []"
  by (induction s) (auto split: list.splits)

lemma hd_split_chr_replicate:
  "a \<noteq> c \<Longrightarrow> hd (split_chr c (replicate n a @ c # rest)) = replicate n a"
  by (induction n) (auto simp: split_chr_nonempty split: list.splits)

lemma utf8_length_append: "utf8_length (xs @ ys) = utf8_length xs + utf8_length ys"
  by (simp add: utf8_length_def)

lemma utf8_length_replicate_a: "utf8_length (replicate n CHR ''a'') = n"
  by (induction n) (simp_all add: utf8_length_def)

text \<open>
  C4. An accepted send can end without an audit record. The mail provider answers 202
  and the write of the record raises, so that nothing is stored in the sent directory
  and \<open>send_email\<close> leaves with the exception instead of reporting success: for a
  recipient whose local part holds a \<open>/\<close> (\<open>FileNotFoundError\<close>), for a local part
  of 235 characters, whose file name exceeds \<open>NAME_MAX\<close> (\<open>OSError\<close>), and when
  the sent directory does not exist (\<open>FileNotFoundError\<close>).
\<close>

theorem send_email_accepted_unlogged:
  "fst (send_email (example_lib Map.empty) (example_provider 202 []) example_clock
          ''a/b@x.com'' ''Hi'' ''x'' example_config (signed_in_world (Some Map.empty))) =
     Inl FileNotFoundError \<and>
   sent (snd (send_email (example_lib Map.empty) (example_provider 202 []) example_clock
          ''a/b@x.com'' ''Hi'' ''x'' example_config (signed_in_world (Some Map.empty)))) =
     Some Map.empty \<and>
   list_ex is_post (trace (snd (send_email (example_lib Map.empty) (example_provider 202 [])
          example_clock ''a/b@x.com'' ''Hi'' ''x'' example_config
          (signed_in_world (Some Map.empty))))) \<and>
   fst (send_email (example_lib Map.empty) (example_provider 202 []) example_clock
          (replicate 235 CHR ''a'' @ ''@x.com'') ''Hi'' ''x'' example_config
          (signed_in_world (Some Map.empty))) =
     Inl OSError \<and>
   sent (snd (send_email (example_lib Map.empty) (example_provider 202 []) example_clock
          (replicate 235 CHR ''a'' @ ''@x.com'') ''Hi'' ''x'' example_config
          (signed_in_world (Some Map.empty)))) =
     Some Map.empty \<and>
   fst (send_email (example_lib Map.empty) (example_provider 202 []) example_clock
          ''a@b.com'' ''Hi'' ''x'' example_config (signed_in_world None)) =
     Inl FileNotFoundError \<and>
   sent (snd (send_email (example_lib Map.empty) (example_provider 202 []) example_clock
          ''a@b.com'' ''Hi'' ''x'' example_config (signed_in_world None))) = None"
proof -
  let ?to = "replicate 235 CHR ''a'' @ ''@x.com''"
  have h: "hd (split_chr CHR ''@'' ?to) = replicate 235 CHR ''a''"
    using hd_split_chr_replicate [of "CHR ''a''" "CHR ''@''" 235 "''x.com''"] by simp
  have f: "send_email_file (example_clock n) ?to =
      ''20240101-000000-'' @ replicate 235 CHR ''a'' @ ''.json''" for n
    unfolding send_email_file_def example_strftime h by simp
  have long: "utf8_length (send_email_file (example_clock n) ?to) = 256" for n
    unfolding f utf8_length_append utf8_length_replicate_a by (simp add: utf8_length_def)
  have notsl: "CHR ''/'' \<notin> set (send_email_file (example_clock n) ?to)" for n
    unfolding f by simp
  have notnul: "CHR 0x00 \<notin> set (send_email_file (example_clock n) ?to)" for n
    unfolding f by simp
  have w: "sent w \<noteq> None \<Longrightarrow>
      write_sent (send_email_file (example_clock n) ?to) e w = Inl OSError" for e w n
    unfolding write_sent_def using long [of n] notsl [of n] notnul [of n]
    by (auto simp: NAME_MAX_def)
  have l1: "fst (send_email (example_lib Map.empty) (example_provider 202 []) example_clock
          ?to ''Hi'' ''x'' example_config (signed_in_world (Some Map.empty))) = Inl OSError"
    unfolding send_email_def example_token
    by (simp add: Let_def emit_def utcnow_def example_provider_def w signed_in_world_def)
  have l2: "sent (snd (send_email (example_lib Map.empty) (example_provider 202 []) example_clock
          ?to ''Hi'' ''x'' example_config (signed_in_world (Some Map.empty)))) = Some Map.empty"
    unfolding send_email_def example_token
    by (simp add: Let_def emit_def utcnow_def example_provider_def w signed_in_world_def)
  have rest: "fst (send_email (example_lib Map.empty) (example_provider 202 []) example_clock
          ''a/b@x.com'' ''Hi'' ''x'' example_config (signed_in_world (Some Map.empty))) =
     Inl FileNotFoundError \<and>
   sent (snd (send_email (example_lib Map.empty) (example_provider 202 []) example_clock
          ''a/b@x.com'' ''Hi'' ''x'' example_config (signed_in_world (Some Map.empty)))) =
     Some Map.empty \<and>
   list_ex is_post (trace (snd (send_email (example_lib Map.empty) (example_provider 202 [])
          example_clock ''a/b@x.com'' ''Hi'' ''x'' example_config
          (signed_in_world (Some Map.empty))))) \<and>
   fst (send_email (example_lib Map.empty) (example_provider 202 []) example_clock
          ''a@b.com'' ''Hi'' ''x'' example_config (signed_in_world None)) =
     Inl FileNotFoundError \<and>
   sent (snd (send_email (example_lib Map.empty) (example_provider 202 []) example_clock
          ''a@b.com'' ''Hi'' ''x'' example_config (signed_in_world None))) = None"
    unfolding send_email_def example_token
    by (simp add: example_send_defs signed_in_world_def)
  from l1 l2 rest show ?thesis by blast
qed

section \<open>The audit records\<close>

text \<open>
  C2. The record that \<open>send_email\<close> writes after an accepted send has five fields:
  timestamp, recipient, subject, status and outlook flag. The validator id and the
  validator version are missing; \<open>log_send\<close> writes all seven fields for the same
  send.
\<close>

theorem send_email_record_fields:
  "sent (snd (send_email (example_lib Map.empty) (example_provider 202 []) example_clock
          ''a@b.com'' ''Hi'' ''x'' example_config (signed_in_world (Some Map.empty)))) =
     Some [''20240101-000000-a.json'' \<mapsto>
            [(''timestamp'', PStr ''2024-01-01T00:00:00Z''),
             (''to'', PStr ''a@b.com''),
             (''subject'', PStr ''Hi''),
             (''status'', PStr ''sent''),
             (''outlook'', PBool True)]] \<and>
   sent (snd (log_send example_clock [''to'' \<mapsto> PStr ''a@b.com'', ''subject'' \<mapsto> PStr ''Hi'']
          (signed_in_world (Some Map.empty)))) =
     Some [''20240101-000000-a.json'' \<mapsto>
            [(''validator'', PStr ''email.audit''),
             (''version'', PStr ''1.0.0''),
             (''timestamp'', PStr ''2024-01-01T00:00:00Z''),
             (''to'', PStr ''a@b.com''),
             (''subject'', PStr ''Hi''),
             (''status'', PStr ''sent''),
             (''outlook'', PBool True)]]"
  unfolding send_email_def example_token
  by (simp add: example_send_defs signed_in_world_def log_send_def log_send_entry_def
        log_send_file_def VALIDATOR_ID_def VERSION_def)

text \<open>
  C3. \<open>send_email\<close> does not truncate the local part in the file name: a local part
  of 26 characters is kept whole, where \<open>log_send\<close> keeps its first 20 characters.
\<close>

theorem send_email_file_not_truncated:
  "sent (snd (send_email (example_lib Map.empty) (example_provider 202 []) example_clock
          ''abcdefghijklmnopqrstuvwxyz@example.com'' ''Hi'' ''x'' example_config
          (signed_in_world (Some Map.empty)))) =
     Some [''20240101-000000-abcdefghijklmnopqrstuvwxyz.json'' \<mapsto>
            send_email_entry (example_clock 0) ''abcdefghijklmnopqrstuvwxyz@example.com'' ''Hi''] \<and>
   fst (log_send example_clock
          [''to'' \<mapsto> PStr ''abcdefghijklmnopqrstuvwxyz@example.com'', ''subject'' \<mapsto> PStr ''Hi'']
          (signed_in_world (Some Map.empty))) =
     Inr ''20240101-000000-abcdefghijklmnopqrst.json''"
  unfolding send_email_def example_token
  by (simp add: example_send_defs signed_in_world_def log_send_def log_send_entry_def
        log_send_file_def)

text \<open>
  C7, as the code has it. For two records written within the same second, the file
  names of \<open>send_email\<close> are equal exactly when the local parts of the recipients are
  equal, and the file names of \<open>log_send\<close> are equal exactly when the first 20
  characters of the local parts are equal.
\<close>

theorem file_names_distinct:
  assumes "strftime t1 = strftime t2"
  shows "(send_email_file t1 to1 = send_email_file t2 to2 \<longleftrightarrow>
            hd (split_chr CHR ''@'' to1) = hd (split_chr CHR ''@'' to2)) \<and>
         (log_send_file t1 (split_chr CHR ''@'' to1) = log_send_file t2 (split_chr CHR ''@'' to2) \<longleftrightarrow>
            take 20 (hd (split_chr CHR ''@'' to1)) = take 20 (hd (split_chr CHR ''@'' to2)))"
  using assms by (simp add: send_email_file_def log_send_file_def)

theorem file_names_distinct_witness:
  "strftime (example_clock 0) = strftime (example_clock 1) \<and>
   send_email_file (example_clock 0) ''a@x.com'' \<noteq> send_email_file (example_clock 1) ''b@x.com'' \<and>
   log_send_file (example_clock 0) (split_chr CHR ''@'' ''a@x.com'') \<noteq>
     log_send_file (example_clock 1) (split_chr CHR ''@'' ''b@x.com'')"
proof -
  have h: "strftime (example_clock 0) = strftime (example_clock 1)"
    by (simp add: example_strftime)
  show ?thesis
    using h file_names_distinct [OF h, of "''a@x.com''" "''b@x.com''"] by simp
qed

text \<open>
  C7 does not hold for every two distinct recipients: two addresses with the same local
  part and different domains get the same file name within one second, in both
  functions.
\<close>

theorem file_names_collide:
  "''a@x.com'' \<noteq> ''a@y.com'' \<and>
   send_email_file (example_clock 0) ''a@x.com'' = send_email_file (example_clock 1) ''a@y.com'' \<and>
   log_send_file (example_clock 0) (split_chr CHR ''@'' ''a@x.com'') =
     log_send_file (example_clock 1) (split_chr CHR ''@'' ''a@y.com'')"
  by (simp add: send_email_file_def log_send_file_def example_strftime)

end
